theory Spec2Isabelle
  imports Complex_Main
begin

section \<open>Temporal compression of the cache optimizer\<close>

text \<open>
  A shallow embedding of \<^verbatim>\<open>TemporalCompressor\<close>
  (\<^verbatim>\<open>cache-optimizer/src/temporal/compression.ts\<close>).

  Conventions of the embedding:
  \<^item> a JavaScript string is a \<^typ>\<open>string\<close>, one \<^typ>\<open>char\<close> per code unit (code units
    up to 255); \<^verbatim>\<open>length\<close> counts code units;
  \<^item> token counts are natural numbers and timestamps are integers (milliseconds); sums and
    differences of them are exact, as they are in double precision below \<open>2\<^sup>5\<^sup>3\<close>;
  \<^item> a compression ratio is a real number, which stands for the double nearest to it, as
    a literal of the source does (\<open>configuredRatio\<close>); the products of the source whose
    ceiling is a target size (\<^verbatim>\<open>originalTokens * compressionRatio\<close>, \<^verbatim>\<open>targetTokens * 0.7\<close>)
    and the quotient \<^verbatim>\<open>ratio\<close> are rounded to double precision (\<open>toDouble\<close>,
    \<open>jsMultiply\<close>); the character budgets (a target times 3, 3.5 or 4, and their halves)
    are exact, as they are in double precision for targets below \<open>2\<^sup>5\<^sup>0\<close>;
  \<^item> \<^verbatim>\<open>Date.now()\<close> is the explicit argument \<open>now\<close>;
  \<^item> \<^verbatim>\<open>undefined\<close> is \<^const>\<open>None\<close>; an entry object mutated in place is an entry value
    returned updated, and the entries of one pass are distinct objects;
  \<^item> \<^verbatim>\<open>async\<close> functions are awaited at once by their only callers, so they are plain
    functions.
\<close>

subsection \<open>Data model\<close>

datatype TemporalTier = Hot | Warm | Cold | Archived

datatype CompressionStrategy = StrategySummary | StrategyEmbedding | StrategyHybrid

text \<open>
  Modelled from the spec: the declarations of \<^verbatim>\<open>types.ts\<close> are not part of the sources.
  The method of a compressed record is one of summary, embedding, hybrid, and the entry
  types are the eight the specification lists.
\<close>

datatype CompressionMethod = MethodSummary | MethodEmbedding | MethodHybrid

datatype CacheEntryType =
    SystemPrompt | FileRead | FileWrite | ToolResult | BashOutput
  | UserMessage | AssistantMessage | OtherType

text \<open>
  A JavaScript number that may be infinite: the value of a division, which does not fail on
  a zero divisor, and a maximal age, which the configurations of the repository set to
  \<^verbatim>\<open>Infinity\<close> for the cold tier. \<^verbatim>\<open>a < b\<close> for an integer \<open>a\<close> is \<open>jsLess a b\<close>; every
  comparison with \<^verbatim>\<open>NaN\<close> is false.
\<close>

datatype JSNumber = Finite real | PosInfinity | NegInfinity | NaN

fun jsLess :: "int \<Rightarrow> JSNumber \<Rightarrow> bool" where
  "jsLess a (Finite b) = (real_of_int a < b)"
| "jsLess a PosInfinity = True"
| "jsLess a NegInfinity = False"
| "jsLess a NaN = False"

text \<open>
  Double precision: \<open>toDouble x\<close> is the number with a significand of 53 bits that is
  nearest to \<open>x\<close>, the one with the even significand when two are equally near
  (IEEE 754 round to nearest, ties to even). With \<open>2\<^sup>e \<le> |x| < 2\<^sup>e\<^sup>+\<^sup>1\<close> these numbers are
  the multiples of \<open>2\<^sup>e\<^sup>-\<^sup>5\<^sup>2\<close>. The exponent is not bounded: overflow to \<^verbatim>\<open>Infinity\<close> and
  subnormal numbers (beyond \<open>2\<^sup>1\<^sup>0\<^sup>2\<^sup>4\<close> and below \<open>2\<^sup>-\<^sup>1\<^sup>0\<^sup>2\<^sup>2\<close>) are not modelled.
\<close>

definition roundHalfEven :: "real \<Rightarrow> int" where
  "roundHalfEven m =
     (let f = \<lfloor>m\<rfloor>
      in if m - of_int f < 1/2 then f
         else if m - of_int f > 1/2 then f + 1
         else if even f then f else f + 1)"

definition toDouble :: "real \<Rightarrow> real" where
  "toDouble x =
     (if x = 0 then 0
      else (let e = \<lfloor>log 2 \<bar>x\<bar>\<rfloor>; u = 2 powr (of_int e - 52)
            in sgn x * of_int (roundHalfEven (\<bar>x\<bar> / u)) * u))"

text \<open>\<^verbatim>\<open>x * y\<close> on two doubles: the product is rounded.\<close>

definition jsMultiply :: "real \<Rightarrow> real \<Rightarrow> real" where
  "jsMultiply x y = toDouble (x * y)"

definition jsDivide :: "int \<Rightarrow> int \<Rightarrow> JSNumber" where
  "jsDivide a b =
     (if b = 0 then (if a = 0 then NaN else if 0 < a then PosInfinity else NegInfinity)
      else Finite (toDouble (real_of_int a / real_of_int b)))"

text \<open>The field \<^verbatim>\<open>method\<close> of a compressed record is \<open>methodUsed\<close>.\<close>

record CompressedEntry =
  methodUsed :: CompressionMethod
  summary :: "string option"
  compressedTokens :: int
  ratio :: JSNumber
  originalTokens :: nat
  compressedAt :: int

text \<open>The fields of a cache entry that the compressor reads or writes.\<close>

record CacheEntry =
  entryId :: string
  entryType :: CacheEntryType
  content :: string
  tokens :: nat
  timestamp :: int
  lastAccessedAt :: int
  tier :: TemporalTier
  compressed :: "CompressedEntry option"

record TierConfig =
  maxAge :: JSNumber
  compressionRatio :: real

record TierTable =
  hot :: TierConfig
  warm :: TierConfig
  cold :: TierConfig

record TemporalConfig =
  tiers :: TierTable
  compressionStrategy :: CompressionStrategy
  promoteOnAccess :: bool
  decayRate :: real

record TierTransitionResult =
  hotToWarm :: nat
  warmToCold :: nat
  coldToArchived :: nat
  promoted :: nat
  tokensSaved :: int
  durationMs :: int

subsection \<open>Tier assignment\<close>

definition determineTier :: "TemporalConfig \<Rightarrow> int \<Rightarrow> CacheEntry \<Rightarrow> TemporalTier" where
  "determineTier cfg now entry =
     (let age = now - timestamp entry in
      if promoteOnAccess cfg \<and> jsLess (now - lastAccessedAt entry) (maxAge (hot (tiers cfg)))
      then Hot
      else if jsLess age (maxAge (hot (tiers cfg))) then Hot
      else if jsLess age (maxAge (warm (tiers cfg))) then Warm
      else Cold)"

definition needsTransition :: "TemporalConfig \<Rightarrow> int \<Rightarrow> CacheEntry \<Rightarrow> bool" where
  "needsTransition cfg now entry = (determineTier cfg now entry \<noteq> tier entry)"

text \<open>
  The cascade as the specification words it, with \<open>age = now - created_at\<close>; it is compared
  with \<^const>\<open>determineTier\<close> below.
\<close>

definition spec_target_tier ::
  "bool \<Rightarrow> JSNumber \<Rightarrow> JSNumber \<Rightarrow> int \<Rightarrow> int \<Rightarrow> int \<Rightarrow> TemporalTier" where
  "spec_target_tier promote_on_access hot_max_age warm_max_age now created_at last_accessed_at =
     (if promote_on_access \<and> jsLess (now - last_accessed_at) hot_max_age then Hot
      else if jsLess (now - created_at) hot_max_age then Hot
      else if jsLess (now - created_at) warm_max_age then Warm
      else Cold)"

text \<open>\<^verbatim>\<open>tierOrder.indexOf\<close>, which is \<open>-1\<close> for an absent element.\<close>

fun indexOf :: "'a list \<Rightarrow> 'a \<Rightarrow> int" where
  "indexOf [] x = -1"
| "indexOf (y # ys) x =
     (if y = x then 0 else (let i = indexOf ys x in if i < 0 then -1 else i + 1))"

definition tierOrder :: "TemporalTier list" where
  "tierOrder = [Hot, Warm, Cold, Archived]"

definition shouldCompress :: "TemporalTier \<Rightarrow> TemporalTier \<Rightarrow> bool" where
  "shouldCompress currentTier targetTier =
     (indexOf tierOrder targetTier > indexOf tierOrder currentTier)"

definition isPromotion :: "TemporalTier \<Rightarrow> TemporalTier \<Rightarrow> bool" where
  "isPromotion currentTier targetTier =
     (indexOf tierOrder targetTier < indexOf tierOrder currentTier)"

subsection \<open>String operations of the platform\<close>

text \<open>
  \<^verbatim>\<open>String.prototype.substring\<close>: both indices are truncated to integers and clamped to
  \<open>[0, length]\<close>, and swapped when the first exceeds the second.
\<close>

definition clampIndex :: "real \<Rightarrow> nat \<Rightarrow> nat" where
  "clampIndex x len = min (nat \<lfloor>x\<rfloor>) len"

definition substring :: "string \<Rightarrow> real \<Rightarrow> real \<Rightarrow> string" where
  "substring s start stop =
     (let a = clampIndex start (length s); b = clampIndex stop (length s)
      in take (max a b - min a b) (drop (min a b) s))"

definition substringFrom :: "string \<Rightarrow> real \<Rightarrow> string" where
  "substringFrom s start = drop (clampIndex start (length s)) s"

definition startsWith :: "string \<Rightarrow> string \<Rightarrow> bool" where
  "startsWith s p = (take (length p) s = p)"

fun includesText :: "string \<Rightarrow> string \<Rightarrow> bool" where
  "includesText [] kw = (kw = [])"
| "includesText (x # xs) kw = (startsWith (x # xs) kw \<or> includesText xs kw)"

fun join :: "string \<Rightarrow> string list \<Rightarrow> string" where
  "join sep [] = []"
| "join sep [x] = x"
| "join sep (x # y # ys) = x @ sep @ join sep (y # ys)"

text \<open>\<^verbatim>\<open>split\<close> at one separator character; the empty string gives one empty piece.\<close>

fun splitAt :: "char \<Rightarrow> string \<Rightarrow> string list" where
  "splitAt c [] = [[]]"
| "splitAt c (x # xs) =
     (if x = c then [] # splitAt c xs
      else (case splitAt c xs of [] \<Rightarrow> [[x]] | w # ws \<Rightarrow> (x # w) # ws))"

text \<open>\<^verbatim>\<open>split\<close> at a regular expression \<^verbatim>\<open>[...]+\<close>: maximal runs of separator characters.\<close>

function splitRuns :: "(char \<Rightarrow> bool) \<Rightarrow> string \<Rightarrow> string list" where
  "splitRuns p [] = [[]]"
| "splitRuns p (x # xs) =
     (if p x then [] # splitRuns p (dropWhile p xs)
      else (case splitRuns p xs of [] \<Rightarrow> [[x]] | w # ws \<Rightarrow> (x # w) # ws))"
  by pat_completeness auto
termination
  by (relation "measure (\<lambda>(p, s). length s)")
     (auto simp: le_imp_less_Suc length_dropWhile_le)

text \<open>White space of \<^verbatim>\<open>trim\<close> and of \<^verbatim>\<open>\s\<close>, and the word characters of \<^verbatim>\<open>\w\<close>.\<close>

definition isSpace :: "char \<Rightarrow> bool" where
  "isSpace c =
     (c \<in> set [CHR 0x09, CHR 0x0A, CHR 0x0B, CHR 0x0C, CHR 0x0D, CHR 0x20, CHR 0xA0])"

definition isWordChar :: "char \<Rightarrow> bool" where
  "isWordChar c =
     (let n = (of_char c :: nat)
      in (48 \<le> n \<and> n \<le> 57) \<or> (65 \<le> n \<and> n \<le> 90) \<or> n = 95 \<or> (97 \<le> n \<and> n \<le> 122))"

definition trim :: "string \<Rightarrow> string" where
  "trim s = rev (dropWhile isSpace (rev (dropWhile isSpace s)))"

definition toLowerChar :: "char \<Rightarrow> char" where
  "toLowerChar c =
     (let n = (of_char c :: nat)
      in if (65 \<le> n \<and> n \<le> 90) \<or> (192 \<le> n \<and> n \<le> 222 \<and> n \<noteq> 215)
         then char_of (n + 32) else c)"

definition toLowerCase :: "string \<Rightarrow> string" where
  "toLowerCase s = map toLowerChar s"

text \<open>
  \<^verbatim>\<open>JSON.parse\<close> is a platform function: it is a parameter of the model, \<^const>\<open>None\<close> when it
  throws. A parsed value keeps what \<^verbatim>\<open>extractJsonSummary\<close> reads: a number as the text
  \<^verbatim>\<open>String\<close> gives for it, an object as its own keys in the order of \<^verbatim>\<open>Object.keys\<close>.
\<close>

datatype JSONValue =
    JNull | JBool bool | JNumber string | JString string
  | JArray "JSONValue list" | JObject "(string \<times> JSONValue) list"

type_synonym JSONParser = "string \<Rightarrow> JSONValue option"

fun typeofObject :: "JSONValue \<Rightarrow> bool" where
  "typeofObject JNull = True"
| "typeofObject (JArray xs) = True"
| "typeofObject (JObject kvs) = True"
| "typeofObject v = False"

fun showNat :: "nat \<Rightarrow> string" where
  "showNat n =
     (if n < 10 then [char_of (48 + n)] else showNat (n div 10) @ [char_of (48 + n mod 10)])"

text \<open>
  \<^verbatim>\<open>String(value)\<close>. The source applies it to \<^verbatim>\<open>null\<close> and to values whose \<^verbatim>\<open>typeof\<close> is
  not \<^verbatim>\<open>object\<close> only, so the last equation is never reached.
\<close>

fun jsString :: "JSONValue \<Rightarrow> string" where
  "jsString JNull = ''null''"
| "jsString (JBool b) = (if b then ''true'' else ''false'')"
| "jsString (JNumber s) = s"
| "jsString (JString s) = s"
| "jsString v = []"

fun objectEntries :: "JSONValue \<Rightarrow> (string \<times> JSONValue) list" where
  "objectEntries (JObject kvs) = kvs"
| "objectEntries (JArray xs) = zip (map showNat [0..<length xs]) xs"
| "objectEntries v = []"

subsection \<open>Summarizers\<close>

text \<open>
  The regular expression \<^verbatim>\<open>^(const|let|var)\s+\w+\s*=\s*(async\s+)?\(\<close>. Its classes are
  disjoint where they meet, so the greedy match is the only one.
\<close>

definition afterKeyword :: "string \<Rightarrow> string option" where
  "afterKeyword s =
     (if startsWith s ''const'' then Some (drop 5 s)
      else if startsWith s ''let'' then Some (drop 3 s)
      else if startsWith s ''var'' then Some (drop 3 s)
      else None)"

definition matchArrowFunction :: "string \<Rightarrow> bool" where
  "matchArrowFunction s =
     (case afterKeyword s of
        None \<Rightarrow> False
      | Some r1 \<Rightarrow>
          (let r2 = dropWhile isSpace r1;
               r3 = dropWhile isWordChar r2;
               r4 = dropWhile isSpace r3
           in length r2 < length r1 \<and> length r3 < length r2 \<and>
              (case r4 of
                 [] \<Rightarrow> False
               | c # r5 \<Rightarrow>
                   c = CHR ''='' \<and>
                   (let r6 = dropWhile isSpace r5
                    in startsWith r6 ''('' \<or>
                       (startsWith r6 ''async'' \<and>
                        (let r7 = drop 5 r6; r8 = dropWhile isSpace r7
                         in length r8 < length r7 \<and> startsWith r8 ''(''))))))"

text \<open>The regular expression \<^verbatim>\<open>^\w+\s*\([^)]*\)\s*[:{]\<close>.\<close>

definition matchMethodSignature :: "string \<Rightarrow> bool" where
  "matchMethodSignature s =
     (let r1 = dropWhile isWordChar s; r2 = dropWhile isSpace r1
      in length r1 < length s \<and>
         (case r2 of
            [] \<Rightarrow> False
          | c # r3 \<Rightarrow>
              c = CHR ''('' \<and>
              (case dropWhile (\<lambda>x. x \<noteq> CHR '')'') r3 of
                 [] \<Rightarrow> False
               | d # r4 \<Rightarrow>
                   (case dropWhile isSpace r4 of
                      [] \<Rightarrow> False
                    | e # r5 \<Rightarrow> e = CHR '':'' \<or> e = CHR ''{''))))"

definition isImportantLine :: "string \<Rightarrow> bool" where
  "isImportantLine trimmed =
     (startsWith trimmed ''import '' \<or>
      startsWith trimmed ''export '' \<or>
      startsWith trimmed ''function '' \<or>
      startsWith trimmed ''async function '' \<or>
      startsWith trimmed ''class '' \<or>
      startsWith trimmed ''interface '' \<or>
      startsWith trimmed ''type '' \<or>
      matchArrowFunction trimmed \<or>
      matchMethodSignature trimmed)"

definition summarizeCode :: "string \<Rightarrow> int \<Rightarrow> string" where
  "summarizeCode content' targetTokens =
     (let targetChars = real_of_int targetTokens * 3.5;
          lines = splitAt (CHR 0x0A) content';
          importantLines = filter isImportantLine (map trim lines);
          joined = join [CHR 0x0A] importantLines;
          result = (if real (length joined) > targetChars
                    then substring joined 0 targetChars @ ''...'' else joined)
      in ''[CODE SUMMARY] '' @
         (if result \<noteq> [] then result else substring content' 0 targetChars @ ''...''))"

text \<open>The loop of \<^verbatim>\<open>extractJsonSummary\<close> over the keys, which stops at the first entry
  that does not fit.\<close>

fun jsonSummaryLoop ::
  "real \<Rightarrow> (string \<times> JSONValue) list \<Rightarrow> string list \<Rightarrow> nat \<Rightarrow> string list" where
  "jsonSummaryLoop maxChars [] acc currentLength = acc"
| "jsonSummaryLoop maxChars ((key, v) # rest) acc currentLength =
     (let entry = key @ '': '' @
            (if typeofObject v then ''[object]'' else substring (jsString v) 0 50)
      in if real (currentLength + length entry) > maxChars then acc
         else jsonSummaryLoop maxChars rest (acc @ [entry])
                (currentLength + length entry + 2))"

definition extractJsonSummary :: "JSONValue \<Rightarrow> real \<Rightarrow> string" where
  "extractJsonSummary obj maxChars =
     (if \<not> typeofObject obj \<or> obj = JNull then substring (jsString obj) 0 maxChars
      else join '', '' (jsonSummaryLoop maxChars (objectEntries obj) [] 0))"

definition summarizeToolOutput :: "JSONParser \<Rightarrow> string \<Rightarrow> int \<Rightarrow> string" where
  "summarizeToolOutput parse content' targetTokens =
     (let targetChars = real_of_int targetTokens * 3;
          plain =
            (if real (length content') > targetChars
             then (let half = real_of_int \<lfloor>targetChars / 2\<rfloor>
                   in ''[TOOL OUTPUT] '' @ substring content' 0 half @ ''...'' @
                      substringFrom content' (real (length content') - half))
             else ''[TOOL OUTPUT] '' @ content')
      in if startsWith content' ''{'' \<or> startsWith content' ''[''
         then (case parse content' of
                 Some parsed \<Rightarrow> ''[TOOL OUTPUT] '' @ extractJsonSummary parsed targetChars
               | None \<Rightarrow> plain)
         else plain)"

definition keywordList :: "string list" where
  "keywordList = [''must'', ''should'', ''important'', ''error'', ''fix'', ''implement'',
               ''create'', ''update'', ''delete'']"

definition summarizeConversation :: "string \<Rightarrow> int \<Rightarrow> string" where
  "summarizeConversation content' targetTokens =
     (let targetChars = real_of_int targetTokens * 4
      in if real (length content') \<le> targetChars then content'
         else
           (let sentences = splitRuns (\<lambda>c. c \<in> set ''.!?'') content';
                importantSentences =
                  filter (\<lambda>s. list_ex (\<lambda>kw. includesText (toLowerCase s) kw) keywordList) sentences;
                joined = join ''. '' importantSentences;
                result =
                  (if real (length joined) > targetChars
                   then substring joined 0 targetChars @ ''...''
                   else if real (length joined) < targetChars / 2
                   then substring content' 0 (targetChars / 2) @ ''...'' @ joined
                   else joined)
            in ''[CONV SUMMARY] '' @ result))"

definition extractKeyContent :: "string \<Rightarrow> int \<Rightarrow> string" where
  "extractKeyContent content' targetTokens =
     (let targetChars = real_of_int targetTokens * 4
      in if real (length content') \<le> targetChars then content'
         else substring content' 0 targetChars @ ''...'')"

subsection \<open>Compression\<close>

text \<open>The result of a compression strategy: the summary, if any, and the token count.\<close>

type_synonym CompressionOutput = "string option \<times> int"

definition applySummaryCompression ::
  "JSONParser \<Rightarrow> CacheEntry \<Rightarrow> int \<Rightarrow> string \<times> int" where
  "applySummaryCompression parse entry targetTokens =
     (let summary' =
            (case entryType entry of
               FileRead \<Rightarrow> summarizeCode (content entry) targetTokens
             | FileWrite \<Rightarrow> summarizeCode (content entry) targetTokens
             | ToolResult \<Rightarrow> summarizeToolOutput parse (content entry) targetTokens
             | BashOutput \<Rightarrow> summarizeToolOutput parse (content entry) targetTokens
             | UserMessage \<Rightarrow> summarizeConversation (content entry) targetTokens
             | AssistantMessage \<Rightarrow> summarizeConversation (content entry) targetTokens
             | _ \<Rightarrow> extractKeyContent (content entry) targetTokens);
          estimatedTokens = \<lceil>real (length summary') / 4\<rceil>
      in (summary', min targetTokens estimatedTokens))"

definition applyEmbeddingCompression :: "CacheEntry \<Rightarrow> CompressionOutput" where
  "applyEmbeddingCompression entry = (None, 10)"

definition applyHybridCompression ::
  "JSONParser \<Rightarrow> CacheEntry \<Rightarrow> int \<Rightarrow> string \<times> int" where
  "applyHybridCompression parse entry targetTokens =
     (let summaryTargetTokens = \<lceil>jsMultiply (real_of_int targetTokens) (toDouble 0.7)\<rceil>;
          summaryResult = applySummaryCompression parse entry summaryTargetTokens
      in (''[EMBEDDING:'' @ entryId entry @ ''] '' @ fst summaryResult,
          snd summaryResult + 5))"

definition applyCompression ::
  "JSONParser \<Rightarrow> CacheEntry \<Rightarrow> int \<Rightarrow> CompressionStrategy \<Rightarrow> CompressionOutput" where
  "applyCompression parse entry targetTokens strategy =
     (case strategy of
        StrategySummary \<Rightarrow>
          (let r = applySummaryCompression parse entry targetTokens in (Some (fst r), snd r))
      | StrategyEmbedding \<Rightarrow> applyEmbeddingCompression entry
      | StrategyHybrid \<Rightarrow>
          (let r = applyHybridCompression parse entry targetTokens in (Some (fst r), snd r)))"

text \<open>
  The first lines of \<^verbatim>\<open>compressEntry\<close>: the tier configuration that is read for a target
  tier (that of \<open>cold\<close> for \<open>archived\<close>), and the local constants \<^verbatim>\<open>compressionRatio\<close>,
  the double that the configured ratio is, and \<^verbatim>\<open>targetTokens\<close>.
\<close>

definition tierConfigFor :: "TemporalConfig \<Rightarrow> TemporalTier \<Rightarrow> TierConfig" where
  "tierConfigFor cfg targetTier =
     (case (if targetTier = Archived then Cold else targetTier) of
        Hot \<Rightarrow> hot (tiers cfg)
      | Warm \<Rightarrow> warm (tiers cfg)
      | _ \<Rightarrow> cold (tiers cfg))"

definition configuredRatio :: "TemporalConfig \<Rightarrow> TemporalTier \<Rightarrow> real" where
  "configuredRatio cfg targetTier = toDouble (compressionRatio (tierConfigFor cfg targetTier))"

definition targetTokensFor :: "TemporalConfig \<Rightarrow> CacheEntry \<Rightarrow> TemporalTier \<Rightarrow> int" where
  "targetTokensFor cfg entry targetTier =
     \<lceil>jsMultiply (real (tokens entry)) (configuredRatio cfg targetTier)\<rceil>"

definition compressEntry ::
  "JSONParser \<Rightarrow> TemporalConfig \<Rightarrow> int \<Rightarrow> CacheEntry \<Rightarrow> TemporalTier \<Rightarrow> CompressedEntry option" where
  "compressEntry parse cfg now entry targetTier =
     (if targetTier = Hot then None
      else if configuredRatio cfg targetTier \<ge> 1 then None
      else
        (let originalTokens' = tokens entry;
             targetTokens = targetTokensFor cfg entry targetTier;
             compressed' = applyCompression parse entry targetTokens (compressionStrategy cfg)
         in Some \<lparr> methodUsed = (if compressionStrategy cfg = StrategyEmbedding
                                  then MethodEmbedding else MethodSummary),
                    summary = fst compressed',
                    compressedTokens = snd compressed',
                    ratio = jsDivide (snd compressed') (int originalTokens'),
                    originalTokens = originalTokens',
                    compressedAt = now \<rparr>))"

subsection \<open>The transition pass\<close>

text \<open>The body of the loop of \<^verbatim>\<open>processTransitions\<close> for one entry.\<close>

definition transitionEntry ::
  "JSONParser \<Rightarrow> TemporalConfig \<Rightarrow> int \<Rightarrow> TierTransitionResult \<Rightarrow> CacheEntry
     \<Rightarrow> TierTransitionResult \<times> CacheEntry" where
  "transitionEntry parse cfg now result entry =
     (let targetTier = determineTier cfg now entry
      in if targetTier = tier entry then (result, entry)
         else
           (let oldTokens = (case compressed entry of
                               Some c \<Rightarrow> compressedTokens c
                             | None \<Rightarrow> int (tokens entry));
                (result1, entry1) =
                  (if shouldCompress (tier entry) targetTier
                   then (case compressEntry parse cfg now entry targetTier of
                           Some c \<Rightarrow>
                             (result\<lparr>tokensSaved :=
                                       tokensSaved result + (oldTokens - compressedTokens c)\<rparr>,
                              entry\<lparr>compressed := Some c\<rparr>)
                         | None \<Rightarrow> (result, entry))
                   else (result, entry));
                result2 =
                  (if tier entry1 = Hot \<and> targetTier = Warm
                   then result1\<lparr>hotToWarm := hotToWarm result1 + 1\<rparr>
                   else if tier entry1 = Warm \<and> targetTier = Cold
                   then result1\<lparr>warmToCold := warmToCold result1 + 1\<rparr>
                   else if tier entry1 = Cold \<and> targetTier = Archived
                   then result1\<lparr>coldToArchived := coldToArchived result1 + 1\<rparr>
                   else if isPromotion (tier entry1) targetTier
                   then result1\<lparr>promoted := promoted result1 + 1\<rparr>
                   else result1)
            in (result2, entry1\<lparr>tier := targetTier\<rparr>)))"

fun transitionLoop ::
  "JSONParser \<Rightarrow> TemporalConfig \<Rightarrow> int \<Rightarrow> TierTransitionResult \<Rightarrow> CacheEntry list
     \<Rightarrow> TierTransitionResult \<times> CacheEntry list" where
  "transitionLoop parse cfg now result [] = (result, [])"
| "transitionLoop parse cfg now result (entry # entries) =
     (let (result1, entry1) = transitionEntry parse cfg now result entry;
          (result2, entries2) = transitionLoop parse cfg now result1 entries
      in (result2, entry1 # entries2))"

text \<open>
  \<^verbatim>\<open>processTransitions\<close> returns the counters; the entries it mutated are returned with
  them. The clock reads \<open>now\<close> during the whole pass.
\<close>

definition processTransitions ::
  "JSONParser \<Rightarrow> TemporalConfig \<Rightarrow> int \<Rightarrow> CacheEntry list
     \<Rightarrow> TierTransitionResult \<times> CacheEntry list" where
  "processTransitions parse cfg now entries =
     (let startTime = now;
          result = \<lparr> hotToWarm = 0, warmToCold = 0, coldToArchived = 0, promoted = 0,
                     tokensSaved = 0, durationMs = 0 \<rparr>;
          (result1, entries1) = transitionLoop parse cfg now result entries
      in (result1\<lparr>durationMs := now - startTime\<rparr>, entries1))"

subsection \<open>Auxiliary definitions\<close>

text \<open>
  Modelled from the spec: \<open>effective_tokens(e) := compressed?.compressed_tokens ?? tokens\<close>.
  The source computes the same value inline as \<^verbatim>\<open>oldTokens\<close>.
\<close>

definition effectiveTokens :: "CacheEntry \<Rightarrow> int" where
  "effectiveTokens entry =
     (case compressed entry of Some c \<Rightarrow> compressedTokens c | None \<Rightarrow> int (tokens entry))"

text \<open>The counters with which \<^verbatim>\<open>processTransitions\<close> starts.\<close>

definition emptyResult :: TierTransitionResult where
  "emptyResult = \<lparr> hotToWarm = 0, warmToCold = 0, coldToArchived = 0, promoted = 0,
                    tokensSaved = 0, durationMs = 0 \<rparr>"

text \<open>The tracking chain of the loop body, as a function of the two tiers, for the proofs.\<close>

definition trackTransition ::
  "TemporalTier \<Rightarrow> TemporalTier \<Rightarrow> TierTransitionResult \<Rightarrow> TierTransitionResult" where
  "trackTransition currentTier targetTier result =
     (if currentTier = Hot \<and> targetTier = Warm
      then result\<lparr>hotToWarm := hotToWarm result + 1\<rparr>
      else if currentTier = Warm \<and> targetTier = Cold
      then result\<lparr>warmToCold := warmToCold result + 1\<rparr>
      else if currentTier = Cold \<and> targetTier = Archived
      then result\<lparr>coldToArchived := coldToArchived result + 1\<rparr>
      else if isPromotion currentTier targetTier
      then result\<lparr>promoted := promoted result + 1\<rparr>
      else result)"

subsection \<open>Example inputs\<close>

text \<open>
  A parser on which every text fails to parse, a configuration with the tier ages of the
  demonstration script (hot below 100 ms, warm below 300 ms), and an entry of \<open>n\<close> tokens
  created and last accessed at time 0.
\<close>

definition noJson :: JSONParser where
  "noJson s = None"

definition exampleTiers :: "real \<Rightarrow> TierTable" where
  "exampleTiers coldRatio =
     \<lparr> hot = \<lparr> maxAge = Finite 100, compressionRatio = 1 \<rparr>,
       warm = \<lparr> maxAge = Finite 300, compressionRatio = 1/4 \<rparr>,
       cold = \<lparr> maxAge = PosInfinity, compressionRatio = coldRatio \<rparr> \<rparr>"

definition exampleConfig :: "CompressionStrategy \<Rightarrow> real \<Rightarrow> TemporalConfig" where
  "exampleConfig strategy coldRatio =
     \<lparr> tiers = exampleTiers coldRatio, compressionStrategy = strategy,
       promoteOnAccess = True, decayRate = 1/10 \<rparr>"

definition exampleEntry :: "nat \<Rightarrow> TemporalTier \<Rightarrow> CacheEntry" where
  "exampleEntry n t =
     \<lparr> entryId = ''e1'', entryType = OtherType, content = replicate (4 * n) (CHR ''a''),
       tokens = n, timestamp = 0, lastAccessedAt = 0, tier = t, compressed = None \<rparr>"

text \<open>
  The record that a pass at time 500 gives the entry of 8 tokens (summary strategy, cold
  ratio 1/2), and that entry, cold, after an access at time 1990.
\<close>

definition exampleCompressed :: CompressedEntry where
  "exampleCompressed =
     \<lparr> methodUsed = MethodSummary, summary = Some (replicate 16 (CHR ''a'') @ ''...''),
       compressedTokens = 4,
       ratio = Finite (1/2), originalTokens = 8, compressedAt = 500 \<rparr>"

definition accessedEntry :: CacheEntry where
  "accessedEntry =
     (exampleEntry 8 Cold)\<lparr> lastAccessedAt := 1990, compressed := Some exampleCompressed \<rparr>"

text \<open>A configuration whose hot tier has the maximal age 0.\<close>

definition zeroAgeConfig :: TemporalConfig where
  "zeroAgeConfig =
     \<lparr> tiers = \<lparr> hot = \<lparr> maxAge = Finite 0, compressionRatio = 1 \<rparr>,
                 warm = \<lparr> maxAge = Finite 300, compressionRatio = 1/4 \<rparr>,
                 cold = \<lparr> maxAge = PosInfinity, compressionRatio = 1/20 \<rparr> \<rparr>,
       compressionStrategy = StrategySummary, promoteOnAccess = True, decayRate = 1/10 \<rparr>"

lemmas example_defs = noJson_def exampleTiers_def exampleConfig_def exampleEntry_def
  exampleCompressed_def accessedEntry_def zeroAgeConfig_def

section \<open>Properties\<close>

subsection \<open>Double precision\<close>

lemma roundHalfEven_of_int: "roundHalfEven (of_int k) = k"
  by (simp add: roundHalfEven_def)

lemma roundHalfEven_le_ceiling: "roundHalfEven m \<le> \<lceil>m\<rceil>"
  unfolding roundHalfEven_def Let_def by (auto simp: ceiling_def) linarith+

lemma roundHalfEven_ge_floor: "\<lfloor>m\<rfloor> \<le> roundHalfEven m"
  by (simp add: roundHalfEven_def Let_def)

lemma roundHalfEven_nearest:
  assumes "\<bar>m - of_int k\<bar> < 1/2"
  shows "roundHalfEven m = k"
proof -
  have "\<lfloor>m\<rfloor> = k \<or> \<lfloor>m\<rfloor> = k - 1" using assms by linarith
  then show ?thesis
    using assms unfolding roundHalfEven_def Let_def by (auto; linarith)
qed

lemma binade_bounds:
  assumes "0 < x"
  shows "2 powr of_int \<lfloor>log 2 x\<rfloor> \<le> x" and "x < 2 powr (of_int \<lfloor>log 2 x\<rfloor> + 1)"
proof -
  have "of_int \<lfloor>log 2 x\<rfloor> \<le> log 2 x" by simp
  then have "2 powr of_int \<lfloor>log 2 x\<rfloor> \<le> 2 powr log 2 x"
    by (simp only: powr_le_cancel_iff) 
  then show "2 powr of_int \<lfloor>log 2 x\<rfloor> \<le> x" using assms by simp
  have "log 2 x < of_int \<lfloor>log 2 x\<rfloor> + 1" by linarith
  then have "2 powr log 2 x < 2 powr (of_int \<lfloor>log 2 x\<rfloor> + 1)"
    by (simp only: powr_less_cancel_iff)
  then show "x < 2 powr (of_int \<lfloor>log 2 x\<rfloor> + 1)" using assms by simp
qed

lemma toDouble_minus: "toDouble (- x) = - toDouble x"
  by (simp add: toDouble_def Let_def sgn_minus)

lemma toDouble_zero: "toDouble 0 = 0"
  by (simp add: toDouble_def)


lemma toDouble_pos:
  assumes "0 < x"
  shows "toDouble x =
     of_int (roundHalfEven (x / 2 powr (of_int \<lfloor>log 2 x\<rfloor> - 52))) * 2 powr (of_int \<lfloor>log 2 x\<rfloor> - 52)"
  using assms by (simp add: toDouble_def Let_def)

lemma toDouble_nearest:
  assumes "0 < x" and "2 powr of_int e \<le> x" and "x < 2 powr (of_int e + 1)"
    and "\<bar>x / 2 powr (of_int e - 52) - of_int k\<bar> < 1/2"
  shows "toDouble x = of_int k * 2 powr (of_int e - 52)"
proof -
  have "\<lfloor>log 2 x\<rfloor> = e"
    using assms(1-3) by (simp add: floor_log_eq_powr_iff)
  then show ?thesis
    using assms(1,4) by (simp add: toDouble_pos roundHalfEven_nearest)
qed

lemma toDouble_le_nat:
  assumes "p \<le> real n" and "n < 2 ^ 53"
  shows "toDouble p \<le> real n"
proof -
  consider "p = 0" | "p < 0" | "0 < p" by linarith
  then show ?thesis
  proof cases
    case 1
    then show ?thesis by (simp add: toDouble_zero)
  next
    case 2
    let ?u = "(2::real) powr (real_of_int \<lfloor>log 2 \<bar>p\<bar>\<rfloor> - 52)"
    have "0 \<le> \<bar>p\<bar> / ?u" by simp
    then have "0 \<le> \<lfloor>\<bar>p\<bar> / ?u\<rfloor>" by simp
    then have "0 \<le> roundHalfEven (\<bar>p\<bar> / ?u)"
      using roundHalfEven_ge_floor [of "\<bar>p\<bar> / ?u"] by linarith
    then have "0 \<le> real_of_int (roundHalfEven (\<bar>p\<bar> / ?u)) * ?u"
      by simp
    with 2 have "toDouble p \<le> 0"
      by (simp add: toDouble_def Let_def mult_nonneg_nonneg)
    then show ?thesis by linarith
  next
    case 3
    let ?e = "\<lfloor>log 2 p\<rfloor>"
    let ?u = "(2::real) powr (real_of_int ?e - 52)"
    have "real n < real (2 ^ 53)"
      using assms(2) by (simp only: of_nat_less_iff)
    with assms(1) have "p < 2 ^ 53" by simp
    then have "log 2 p < 53"
      using 3 by (simp add: log_less_iff powr_realpow)
    then have e: "?e \<le> 52" by linarith
    define d where "d = nat (52 - ?e)"
    have u: "?u = 1 / 2 ^ d"
    proof -
      have "real_of_int ?e - 52 = - real d" using e by (simp add: d_def)
      then have "?u = 2 powr (- real d)" by simp
      then show ?thesis by (simp add: powr_minus powr_realpow divide_simps)
    qed
    have "p / ?u \<le> real n / ?u"
      using assms(1) by (simp add: divide_right_mono)
    also have "real n / ?u = of_int (int (n * 2 ^ d))"
      by (simp add: u)
    finally have "\<lceil>p / ?u\<rceil> \<le> int (n * 2 ^ d)"
      by (simp only: ceiling_le_iff)
    with roundHalfEven_le_ceiling [of "p / ?u"]
    have "roundHalfEven (p / ?u) \<le> int (n * 2 ^ d)" by linarith
    then have "real_of_int (roundHalfEven (p / ?u)) \<le> real (n * 2 ^ d)"
      by linarith
    then have "real_of_int (roundHalfEven (p / ?u)) * ?u \<le> real (n * 2 ^ d) * ?u"
      by (simp add: mult_right_mono)
    also have "real (n * 2 ^ d) * ?u = real n"
      by (simp add: u)
    finally show ?thesis
      using 3 by (simp add: toDouble_pos)
  qed
qed

lemma toDouble_nonneg: "0 \<le> x \<Longrightarrow> 0 \<le> toDouble x"
  using toDouble_le_nat [of "- x" 0] by (simp add: toDouble_minus)

lemma toDouble_nat:
  assumes "n < 2 ^ 53"
  shows "toDouble (real n) = real n"
proof (cases "n = 0")
  case True
  then show ?thesis by (simp add: toDouble_zero)
next
  case False
  then have pos: "0 < real n" by simp
  let ?e = "\<lfloor>log 2 (real n)\<rfloor>"
  let ?u = "(2::real) powr (real_of_int ?e - 52)"
  have "real n < real (2 ^ 53)"
    using assms by (simp only: of_nat_less_iff)
  then have "real n < 2 ^ 53" by simp
  then have "log 2 (real n) < 53"
    using pos by (simp add: log_less_iff powr_realpow)
  then have e: "?e \<le> 52" by linarith
  define d where "d = nat (52 - ?e)"
  have u: "?u = 1 / 2 ^ d"
  proof -
    have "real_of_int ?e - 52 = - real d" using e by (simp add: d_def)
    then have "?u = 2 powr (- real d)" by simp
    then show ?thesis by (simp add: powr_minus powr_realpow divide_simps)
  qed
  have "real n / ?u = of_int (int (n * 2 ^ d))"
    by (simp add: u)
  then have "roundHalfEven (real n / ?u) = int (n * 2 ^ d)"
    by (simp only: roundHalfEven_of_int)
  then have "toDouble (real n) = real (n * 2 ^ d) * ?u"
    using pos by (simp add: toDouble_pos)
  also have "\<dots> = real n" by (simp add: u)
  finally show ?thesis .
qed

lemma toDouble_double: "toDouble (x * 2) = toDouble x * 2"
proof (cases "x = 0")
  case True
  then show ?thesis by (simp add: toDouble_zero)
next
  case False
  then have "log 2 (\<bar>x\<bar> * 2) = log 2 \<bar>x\<bar> + 1"
    by (simp add: log_mult)
  then have e: "\<lfloor>log 2 (\<bar>x\<bar> * 2)\<rfloor> = \<lfloor>log 2 \<bar>x\<bar>\<rfloor> + 1"
    by simp
  have "(2::real) powr (real_of_int \<lfloor>log 2 \<bar>x\<bar>\<rfloor> - 52 + 1)
      = 2 powr (real_of_int \<lfloor>log 2 \<bar>x\<bar>\<rfloor> - 52) * 2 powr 1"
    by (rule powr_add)
  moreover have "real_of_int \<lfloor>log 2 \<bar>x\<bar>\<rfloor> - 52 + 1 = real_of_int \<lfloor>log 2 \<bar>x\<bar>\<rfloor> - 51"
    by simp
  ultimately have u: "(2::real) powr (real_of_int \<lfloor>log 2 \<bar>x\<bar>\<rfloor> - 51)
      = 2 powr (real_of_int \<lfloor>log 2 \<bar>x\<bar>\<rfloor> - 52) * 2"
    by simp
  show ?thesis
    using False by (simp add: toDouble_def Let_def e u abs_mult sgn_mult)
qed

lemma toDouble_half: "toDouble (x / 2) = toDouble x / 2"
  using toDouble_double [of "x / 2"] by simp

lemma toDouble_div_pow2: "toDouble (x / 2 ^ j) = toDouble x / 2 ^ j"
  by (induction j arbitrary: x) (simp_all add: toDouble_half divide_divide_eq_left [symmetric] del: divide_divide_eq_left)


lemma toDouble_nearest_small:
  assumes "1 / 2 ^ a \<le> x" and "x < 2 / 2 ^ a"
    and "\<bar>x * 2 ^ (a + 52) - real_of_int k\<bar> < 1/2"
  shows "toDouble x = real_of_int k / 2 ^ (a + 52)"
proof -
  have pos: "0 < x"
    using assms(1) by (smt (verit) divide_pos_pos zero_less_power)
  have p: "(2::real) powr real_of_int (- int a) = 1 / 2 ^ a"
    by (simp add: powr_minus powr_realpow divide_simps)
  have q: "(2::real) powr (real_of_int (- int a) + 1) = 2 / 2 ^ a"
    using powr_add [of "2::real" "real_of_int (- int a)" 1] p by simp
  have "real_of_int (- int a) - 52 = - real (a + 52)" by simp
  then have u: "(2::real) powr (real_of_int (- int a) - 52) = 1 / 2 ^ (a + 52)"
    by (simp only: powr_minus powr_realpow) (simp add: divide_simps)
  have "toDouble x = real_of_int k * 2 powr (real_of_int (- int a) - 52)"
    using pos assms by (intro toDouble_nearest) (simp_all only: p q u, simp_all)
  then show ?thesis by (simp only: u) simp
qed

lemma toDouble_nearest_large:
  assumes "a \<le> 52" and "2 ^ a \<le> x" and "x < 2 * 2 ^ a"
    and "\<bar>x * 2 ^ (52 - a) - real_of_int k\<bar> < 1/2"
  shows "toDouble x = real_of_int k / 2 ^ (52 - a)"
proof -
  have pos: "0 < x"
    using assms(2) by (smt (verit) zero_less_power)
  have p: "(2::real) powr real_of_int (int a) = 2 ^ a"
    by (simp add: powr_realpow)
  have q: "(2::real) powr (real_of_int (int a) + 1) = 2 * 2 ^ a"
    using powr_add [of "2::real" "real_of_int (int a)" 1] p by simp
  have "real_of_int (int a) - 52 = - real (52 - a)"
    using assms(1) by simp
  then have u: "(2::real) powr (real_of_int (int a) - 52) = 1 / 2 ^ (52 - a)"
    by (simp only: powr_minus powr_realpow) (simp add: divide_simps)
  have "toDouble x = real_of_int k * 2 powr (real_of_int (int a) - 52)"
    using pos assms by (intro toDouble_nearest) (simp_all only: p q u, simp_all)
  then show ?thesis by (simp only: u) simp
qed

lemma toDouble_7_100: "toDouble (7/100) = 1261007895663739 / 18014398509481984"
  using toDouble_nearest_small [of 4 "7/100" 5044031582654956] by simp

lemma toDouble_1_10: "toDouble (1/10) = 3602879701896397 / 36028797018963968"
  using toDouble_nearest_small [of 4 "1/10" 7205759403792794] by simp

lemma toDouble_7_10: "toDouble (7/10) = 3152519739159347 / 4503599627370496"
  using toDouble_nearest_small [of 1 "7/10" 6305039478318694] by simp

lemma toDouble_numeral:
  "numeral w < (2::nat) ^ 53 \<Longrightarrow> toDouble (numeral w) = numeral w"
  using toDouble_nat [of "numeral w"] by simp

lemma toDouble_one: "toDouble 1 = 1"
  using toDouble_nat [of 1] by simp

lemma toDouble_quarter: "toDouble (x / 4) = toDouble x / 4"
  using toDouble_div_pow2 [of x 2] by simp

lemma toDouble_twice_7_10:
  "toDouble (3152519739159347 / 2251799813685248) = 3152519739159347 / 2251799813685248"
  using toDouble_div_pow2 [of 3152519739159347 51] by (simp add: toDouble_numeral)

lemmas double_simps = toDouble_zero toDouble_one toDouble_numeral toDouble_half
  toDouble_quarter toDouble_7_10 toDouble_twice_7_10

text \<open>
  Two products in which the rounding decides the ceiling: \<^verbatim>\<open>100 * 0.07\<close> is
  \<^verbatim>\<open>7.000000000000001\<close>, and \<^verbatim>\<open>10 * 0.1\<close> is \<^verbatim>\<open>1\<close>.
\<close>

lemma jsMultiply_100_7: "\<lceil>jsMultiply 100 (toDouble (7/100))\<rceil> = 8"
proof -
  have "toDouble (31525197391593475 / 4503599627370496)
      = 7881299347898369 / 1125899906842624"
    using toDouble_nearest_large [of 2 "31525197391593475 / 4503599627370496" 7881299347898369]
    by simp
  then have "jsMultiply 100 (toDouble (7/100)) = 7881299347898369 / 1125899906842624"
    by (simp add: jsMultiply_def toDouble_7_100)
  then show ?thesis by (simp only:) simp
qed

lemma jsMultiply_10_1: "\<lceil>jsMultiply 10 (toDouble (1/10))\<rceil> = 1"
proof -
  have "toDouble (10 * (3602879701896397 / 36028797018963968)) = 1"
    using toDouble_nearest_large [of 0 "10 * (3602879701896397 / 36028797018963968)"
        4503599627370496]
    by simp
  then show ?thesis
    by (simp add: jsMultiply_def toDouble_1_10)
qed

subsection \<open>Token counts of a compression\<close>





subsection \<open>The body of the loop\<close>

lemma determineTier_range: "determineTier cfg now entry \<in> {Hot, Warm, Cold}"
  by (simp add: determineTier_def Let_def)

lemma determineTier_not_archived: "determineTier cfg now entry \<noteq> Archived"
  using determineTier_range [of cfg now entry] by auto

lemma determineTier_cong:
  "timestamp e' = timestamp e \<Longrightarrow> lastAccessedAt e' = lastAccessedAt e \<Longrightarrow>
   determineTier cfg now e' = determineTier cfg now e"
  by (simp add: determineTier_def)

lemma shouldCompress_iff:
  "shouldCompress a b \<longleftrightarrow>
     (a = Hot \<and> b \<noteq> Hot) \<or> (a = Warm \<and> (b = Cold \<or> b = Archived)) \<or> (a = Cold \<and> b = Archived)"
  by (cases a; cases b; simp add: shouldCompress_def tierOrder_def)

lemma isPromotion_iff:
  "isPromotion a b \<longleftrightarrow>
     (a = Archived \<and> b \<noteq> Archived) \<or> (a = Cold \<and> (b = Hot \<or> b = Warm)) \<or> (a = Warm \<and> b = Hot)"
  by (cases a; cases b; simp add: isPromotion_def tierOrder_def)

lemma transitionEntry_stable:
  "determineTier cfg now entry = tier entry \<Longrightarrow>
   transitionEntry parse cfg now result entry = (result, entry)"
  by (simp add: transitionEntry_def)

lemma transitionEntry_plain:
  assumes "determineTier cfg now entry \<noteq> tier entry"
    and "\<not> shouldCompress (tier entry) (determineTier cfg now entry) \<or>
         compressEntry parse cfg now entry (determineTier cfg now entry) = None"
  shows "transitionEntry parse cfg now result entry =
     (trackTransition (tier entry) (determineTier cfg now entry) result,
      entry\<lparr>tier := determineTier cfg now entry\<rparr>)"
  using assms by (cases "shouldCompress (tier entry) (determineTier cfg now entry)")
    (simp_all add: transitionEntry_def trackTransition_def Let_def)

lemma transitionEntry_compress:
  assumes "determineTier cfg now entry \<noteq> tier entry"
    and "shouldCompress (tier entry) (determineTier cfg now entry)"
    and "compressEntry parse cfg now entry (determineTier cfg now entry) = Some c"
  shows "transitionEntry parse cfg now result entry =
     (trackTransition (tier entry) (determineTier cfg now entry)
        (result\<lparr>tokensSaved := tokensSaved result + (effectiveTokens entry - compressedTokens c)\<rparr>),
      entry\<lparr>compressed := Some c, tier := determineTier cfg now entry\<rparr>)"
  using assms by (simp add: transitionEntry_def trackTransition_def Let_def effectiveTokens_def)

lemma transitionEntry_cases:
  obtains (stable) "determineTier cfg now entry = tier entry"
  | (plain) "determineTier cfg now entry \<noteq> tier entry"
      "\<not> shouldCompress (tier entry) (determineTier cfg now entry) \<or>
       compressEntry parse cfg now entry (determineTier cfg now entry) = None"
  | (compress) c where "determineTier cfg now entry \<noteq> tier entry"
      "shouldCompress (tier entry) (determineTier cfg now entry)"
      "compressEntry parse cfg now entry (determineTier cfg now entry) = Some c"
  by (cases "compressEntry parse cfg now entry (determineTier cfg now entry)") blast+

lemma trackTransition_hotToWarm:
  "hotToWarm (trackTransition a b r) = hotToWarm r + (if a = Hot \<and> b = Warm then 1 else 0)"
  by (simp add: trackTransition_def)

lemma trackTransition_warmToCold:
  "warmToCold (trackTransition a b r) = warmToCold r + (if a = Warm \<and> b = Cold then 1 else 0)"
  by (simp add: trackTransition_def)

lemma trackTransition_coldToArchived:
  "coldToArchived (trackTransition a b r) =
     coldToArchived r + (if a = Cold \<and> b = Archived then 1 else 0)"
  by (simp add: trackTransition_def)

lemma trackTransition_promoted:
  "promoted (trackTransition a b r) = promoted r + (if isPromotion a b then 1 else 0)"
  by (cases a; cases b; simp add: trackTransition_def isPromotion_iff)

lemma trackTransition_tokensSaved: "tokensSaved (trackTransition a b r) = tokensSaved r"
  by (simp add: trackTransition_def)

lemma trackTransition_durationMs: "durationMs (trackTransition a b r) = durationMs r"
  by (simp add: trackTransition_def)

lemmas trackTransition_fields = trackTransition_hotToWarm trackTransition_warmToCold
  trackTransition_coldToArchived trackTransition_promoted trackTransition_tokensSaved
  trackTransition_durationMs

lemma isPromotion_same: "\<not> isPromotion a a"
  by (simp add: isPromotion_iff)

lemma transitionEntry_tier:
  "tier (snd (transitionEntry parse cfg now result entry)) = determineTier cfg now entry"
  by (cases rule: transitionEntry_cases [where cfg=cfg and now=now and entry=entry and parse=parse])
     (simp_all add: transitionEntry_stable transitionEntry_plain transitionEntry_compress)

lemma transitionEntry_times:
  "timestamp (snd (transitionEntry parse cfg now result entry)) = timestamp entry \<and>
   lastAccessedAt (snd (transitionEntry parse cfg now result entry)) = lastAccessedAt entry"
  by (cases rule: transitionEntry_cases [where cfg=cfg and now=now and entry=entry and parse=parse])
     (simp_all add: transitionEntry_stable transitionEntry_plain transitionEntry_compress)

lemma transitionEntry_compressed:
  "compressed (snd (transitionEntry parse cfg now result entry)) =
     (if determineTier cfg now entry \<noteq> tier entry \<and>
         shouldCompress (tier entry) (determineTier cfg now entry)
      then (case compressEntry parse cfg now entry (determineTier cfg now entry) of
              Some c \<Rightarrow> Some c | None \<Rightarrow> compressed entry)
      else compressed entry)"
proof (cases rule: transitionEntry_cases [where cfg=cfg and now=now and entry=entry and parse=parse])
  case stable
  then show ?thesis by (simp add: transitionEntry_stable)
next
  case plain
  then show ?thesis by (auto simp: transitionEntry_plain)
next
  case (compress c)
  then show ?thesis by (simp add: transitionEntry_compress)
qed

lemma transitionEntry_counters:
  "hotToWarm (fst (transitionEntry parse cfg now result entry)) =
     hotToWarm result + (if tier entry = Hot \<and> determineTier cfg now entry = Warm then 1 else 0) \<and>
   warmToCold (fst (transitionEntry parse cfg now result entry)) =
     warmToCold result + (if tier entry = Warm \<and> determineTier cfg now entry = Cold then 1 else 0) \<and>
   coldToArchived (fst (transitionEntry parse cfg now result entry)) = coldToArchived result \<and>
   promoted (fst (transitionEntry parse cfg now result entry)) =
     promoted result + (if isPromotion (tier entry) (determineTier cfg now entry) then 1 else 0) \<and>
   durationMs (fst (transitionEntry parse cfg now result entry)) = durationMs result"
proof (cases rule: transitionEntry_cases [where cfg=cfg and now=now and entry=entry and parse=parse])
  case stable
  then show ?thesis by (simp add: transitionEntry_stable isPromotion_same)
next
  case plain
  then show ?thesis
    by (simp add: transitionEntry_plain trackTransition_fields determineTier_not_archived)
next
  case (compress c)
  then show ?thesis
    by (simp add: transitionEntry_compress trackTransition_fields determineTier_not_archived)
qed

lemma effectiveTokens_update:
  "effectiveTokens (entry\<lparr>tier := t\<rparr>) = effectiveTokens entry"
  "effectiveTokens (entry\<lparr>compressed := Some c\<rparr>) = compressedTokens c"
  by (simp_all add: effectiveTokens_def split: option.splits)

lemma transitionEntry_tokensSaved:
  "tokensSaved (fst (transitionEntry parse cfg now result entry)) =
     tokensSaved result + (effectiveTokens entry
        - effectiveTokens (snd (transitionEntry parse cfg now result entry)))"
proof (cases rule: transitionEntry_cases [where cfg=cfg and now=now and entry=entry and parse=parse])
  case stable
  then show ?thesis by (simp add: transitionEntry_stable)
next
  case plain
  then show ?thesis
    by (simp add: transitionEntry_plain trackTransition_fields effectiveTokens_update)
next
  case (compress c)
  then show ?thesis
    by (simp add: transitionEntry_compress trackTransition_fields effectiveTokens_update)
qed

lemma transitionEntry_snd_indep:
  "snd (transitionEntry parse cfg now result entry) = snd (transitionEntry parse cfg now result' entry)"
  by (cases rule: transitionEntry_cases [where cfg=cfg and now=now and entry=entry and parse=parse])
     (simp_all add: transitionEntry_stable transitionEntry_plain transitionEntry_compress)

subsection \<open>The loop\<close>

lemma transitionLoop_Cons:
  "transitionLoop parse cfg now result (entry # entries) =
     (fst (transitionLoop parse cfg now (fst (transitionEntry parse cfg now result entry)) entries),
      snd (transitionEntry parse cfg now result entry) #
      snd (transitionLoop parse cfg now (fst (transitionEntry parse cfg now result entry)) entries))"
  by (simp add: case_prod_beta)

lemma transitionLoop_length:
  "length (snd (transitionLoop parse cfg now result entries)) = length entries"
  by (induction entries arbitrary: result) (simp_all add: transitionLoop_Cons del: transitionLoop.simps(2))

lemma transitionLoop_nth:
  "i < length entries \<Longrightarrow>
   snd (transitionLoop parse cfg now result entries) ! i =
     snd (transitionEntry parse cfg now result' (entries ! i))"
proof (induction entries arbitrary: result i)
  case Nil
  then show ?case by simp
next
  case (Cons entry entries)
  show ?case
  proof (cases i)
    case 0
    then show ?thesis
      using transitionEntry_snd_indep [of parse cfg now result entry result']
      by (simp add: transitionLoop_Cons del: transitionLoop.simps(2))
  next
    case (Suc j)
    with Cons show ?thesis
      by (simp add: transitionLoop_Cons del: transitionLoop.simps(2))
  qed
qed

lemma transitionLoop_counters:
  "hotToWarm (fst (transitionLoop parse cfg now result entries)) =
     hotToWarm result + length (filter (\<lambda>e. tier e = Hot \<and> determineTier cfg now e = Warm) entries) \<and>
   warmToCold (fst (transitionLoop parse cfg now result entries)) =
     warmToCold result + length (filter (\<lambda>e. tier e = Warm \<and> determineTier cfg now e = Cold) entries) \<and>
   coldToArchived (fst (transitionLoop parse cfg now result entries)) = coldToArchived result \<and>
   promoted (fst (transitionLoop parse cfg now result entries)) =
     promoted result + length (filter (\<lambda>e. isPromotion (tier e) (determineTier cfg now e)) entries) \<and>
   durationMs (fst (transitionLoop parse cfg now result entries)) = durationMs result"
proof (induction entries arbitrary: result)
  case Nil
  then show ?case by simp
next
  case (Cons entry entries)
  show ?case
    using Cons [of "fst (transitionEntry parse cfg now result entry)"]
      transitionEntry_counters [of parse cfg now result entry]
    by (simp add: transitionLoop_Cons del: transitionLoop.simps(2))
qed

lemma transitionLoop_tokensSaved:
  "tokensSaved (fst (transitionLoop parse cfg now result entries)) =
     tokensSaved result + (sum_list (map effectiveTokens entries)
       - sum_list (map effectiveTokens (snd (transitionLoop parse cfg now result entries))))"
proof (induction entries arbitrary: result)
  case Nil
  then show ?case by simp
next
  case (Cons entry entries)
  show ?case
    using Cons [of "fst (transitionEntry parse cfg now result entry)"]
      transitionEntry_tokensSaved [of parse cfg now result entry]
    by (simp add: transitionLoop_Cons del: transitionLoop.simps(2))
qed

lemma transitionLoop_stable:
  "\<forall>e \<in> set entries. determineTier cfg now e = tier e \<Longrightarrow>
   transitionLoop parse cfg now result entries = (result, entries)"
proof (induction entries arbitrary: result)
  case Nil
  then show ?case by simp
next
  case (Cons entry entries)
  then have "transitionEntry parse cfg now result entry = (result, entry)"
    and "transitionLoop parse cfg now result entries = (result, entries)"
    by (simp_all add: transitionEntry_stable)
  then show ?case
    by (simp add: transitionLoop_Cons del: transitionLoop.simps(2))
qed

lemma transitionEntry_settled:
  "determineTier cfg now (snd (transitionEntry parse cfg now result entry)) =
     tier (snd (transitionEntry parse cfg now result entry))"
proof -
  have "determineTier cfg now (snd (transitionEntry parse cfg now result entry)) =
      determineTier cfg now entry"
    using transitionEntry_times [of parse cfg now result entry]
    by (intro determineTier_cong) simp_all
  then show ?thesis by (simp add: transitionEntry_tier)
qed

lemma transitionLoop_settled:
  "e \<in> set (snd (transitionLoop parse cfg now result entries)) \<Longrightarrow>
   determineTier cfg now e = tier e"
proof (induction entries arbitrary: result)
  case Nil
  then show ?case by simp
next
  case (Cons entry entries)
  let ?r = "fst (transitionEntry parse cfg now result entry)"
  from Cons.prems
  have "e = snd (transitionEntry parse cfg now result entry) \<or>
        e \<in> set (snd (transitionLoop parse cfg now ?r entries))"
    by (simp add: transitionLoop_Cons del: transitionLoop.simps(2))
  then show ?case
    using transitionEntry_settled [of cfg now parse result entry] Cons.IH [of ?r]
    by blast
qed

lemma processTransitions_eq:
  "processTransitions parse cfg now entries =
     (fst (transitionLoop parse cfg now emptyResult entries),
      snd (transitionLoop parse cfg now emptyResult entries))"
proof -
  have "durationMs (fst (transitionLoop parse cfg now emptyResult entries)) = 0"
    using transitionLoop_counters [of parse cfg now emptyResult entries]
    by (simp add: emptyResult_def)
  then have "(fst (transitionLoop parse cfg now emptyResult entries))\<lparr>durationMs := 0\<rparr> =
      fst (transitionLoop parse cfg now emptyResult entries)"
    by (metis TierTransitionResult.update_convs(6) TierTransitionResult.surjective)
  then show ?thesis
    by (simp add: processTransitions_def emptyResult_def case_prod_beta Let_def)
qed

lemma processTransitions_fst:
  "fst (processTransitions parse cfg now entries) =
     fst (transitionLoop parse cfg now emptyResult entries)"
  by (simp add: processTransitions_eq)

lemma processTransitions_snd:
  "snd (processTransitions parse cfg now entries) =
     snd (transitionLoop parse cfg now emptyResult entries)"
  by (simp add: processTransitions_eq)

lemma processTransitions_nth:
  "i < length entries \<Longrightarrow>
   snd (processTransitions parse cfg now entries) ! i =
     snd (transitionEntry parse cfg now result (entries ! i))"
  by (simp add: processTransitions_snd transitionLoop_nth)

lemma processTransitions_length:
  "length (snd (processTransitions parse cfg now entries)) = length entries"
  by (simp add: processTransitions_snd transitionLoop_length)

lemma shouldCompress_to_hot: "\<not> shouldCompress a Hot"
  by (simp add: shouldCompress_iff)

lemma shouldCompress_from_archived: "\<not> shouldCompress Archived b"
  by (simp add: shouldCompress_iff)

lemma filter_length_mono:
  "(\<And>x. P x \<Longrightarrow> Q x) \<Longrightarrow> length (filter P xs) \<le> length (filter Q xs)"
  by (induction xs) auto

lemma trackTransition_archived:
  "t \<noteq> Archived \<Longrightarrow> trackTransition Archived t r = r\<lparr>promoted := promoted r + 1\<rparr>"
  by (cases t) (simp_all add: trackTransition_def isPromotion_iff)

lemma change_counted:
  assumes "t \<noteq> Archived"
  shows "(if a = Hot \<and> t = Warm then 1 else 0) + (if a = Warm \<and> t = Cold then 1 else 0)
       + (if isPromotion a t then 1 else 0) + (if a = Hot \<and> t = Cold then 1 else 0)
       = (if t \<noteq> a then 1 else (0::nat))"
  using assms by (cases a; cases t; simp add: isPromotion_iff)

lemma changes_counted:
  "length (filter (\<lambda>e. tier e = Hot \<and> determineTier cfg now e = Warm) entries)
   + length (filter (\<lambda>e. tier e = Warm \<and> determineTier cfg now e = Cold) entries)
   + length (filter (\<lambda>e. isPromotion (tier e) (determineTier cfg now e)) entries)
   + length (filter (\<lambda>e. tier e = Hot \<and> determineTier cfg now e = Cold) entries)
   = length (filter (\<lambda>e. determineTier cfg now e \<noteq> tier e) entries)"
proof (induction entries)
  case Nil
  then show ?case by simp
next
  case (Cons e entries)
  from change_counted [OF determineTier_not_archived, of "tier e" cfg now e] Cons
  show ?case
    by (cases "tier e"; cases "determineTier cfg now e"; simp add: isPromotion_iff)
qed

subsection \<open>The example inputs, evaluated\<close>

lemma example_strategy: "compressionStrategy (exampleConfig s r) = s"
  by (simp add: exampleConfig_def)

lemma example_fields:
  "tokens (exampleEntry n t) = n" "tier (exampleEntry n t) = t"
  "compressed (exampleEntry n t) = None"
  by (simp_all add: exampleEntry_def)

lemma example_retier: "(exampleEntry n t)\<lparr>tier := t'\<rparr> = exampleEntry n t'"
  by (simp add: exampleEntry_def)

lemma example_tier_at:
  "determineTier (exampleConfig s r) 50 (exampleEntry n t) = Hot"
  "determineTier (exampleConfig s r) 150 (exampleEntry n t) = Warm"
  "determineTier (exampleConfig s r) 250 (exampleEntry n t) = Warm"
  "determineTier (exampleConfig s r) 500 (exampleEntry n t) = Cold"
  "determineTier (exampleConfig s r) 2000 (exampleEntry n t) = Cold"
  by (simp_all add: determineTier_def Let_def example_defs)

lemma configuredRatio_archived: "configuredRatio cfg Archived = configuredRatio cfg Cold"
  by (simp add: configuredRatio_def tierConfigFor_def)

lemma targetTokensFor_archived:
  "targetTokensFor cfg entry Archived = targetTokensFor cfg entry Cold"
  by (simp add: targetTokensFor_def configuredRatio_archived)

lemma compressEntry_archived:
  "compressEntry parse cfg now entry Archived = compressEntry parse cfg now entry Cold"
  by (simp add: compressEntry_def configuredRatio_archived targetTokensFor_archived)

lemma example_warm_ratio: "configuredRatio (exampleConfig s r) Warm = 1/4"
  by (simp add: configuredRatio_def tierConfigFor_def example_defs double_simps)

lemma example_cold_ratio: "configuredRatio (exampleConfig s (1/2)) Cold = 1/2"
  by (simp add: configuredRatio_def tierConfigFor_def example_defs double_simps)


lemma example_target_cold:
  "targetTokensFor (exampleConfig s (1/2)) (exampleEntry 8 t) Cold = 4"
  "targetTokensFor (exampleConfig s (1/2)) (exampleEntry 100 t) Cold = 50"
  by (simp_all add: targetTokensFor_def example_cold_ratio example_fields jsMultiply_def
        double_simps)

lemma example_target_rounded:
  "targetTokensFor (exampleConfig s (7/100)) (exampleEntry 100 t) Cold = 8"
  "targetTokensFor (exampleConfig s (1/10)) (exampleEntry 10 t) Cold = 1"
  by (simp_all add: targetTokensFor_def configuredRatio_def tierConfigFor_def example_defs
        jsMultiply_100_7 jsMultiply_10_1)


lemma compressEntry_tokens_eq:
  "targetTier \<noteq> Hot \<Longrightarrow> configuredRatio cfg targetTier < 1 \<Longrightarrow>
   map_option compressedTokens (compressEntry parse cfg now entry targetTier) =
     Some (snd (applyCompression parse entry (targetTokensFor cfg entry targetTier)
       (compressionStrategy cfg)))"
  by (simp add: compressEntry_def Let_def)

lemma summary_example:
  "applySummaryCompression parse (exampleEntry n t) k =
     (extractKeyContent (replicate (4 * n) (CHR ''a'')) k,
      min k \<lceil>real (length (extractKeyContent (replicate (4 * n) (CHR ''a'')) k)) / 4\<rceil>)"
  by (simp add: applySummaryCompression_def exampleEntry_def Let_def)

lemma extractKeyContent_length:
  "length (extractKeyContent (replicate n c) k) =
     (if int n \<le> k * 4 then n else nat (k * 4) + 3)"
proof -
  have "\<lfloor>real_of_int k * 4\<rfloor> = k * 4"
    using floor_of_int [of "k * 4", where ?'a = real] by (simp only: of_int_mult of_int_numeral)
  then show ?thesis
    by (auto simp: extractKeyContent_def substring_def clampIndex_def Let_def)
qed

lemma summary_tokens_example:
  "snd (applySummaryCompression parse (exampleEntry n t) k) =
     min k \<lceil>real (if int (4 * n) \<le> k * 4 then 4 * n else nat (k * 4) + 3) / 4\<rceil>"
  by (simp only: summary_example extractKeyContent_length snd_conv)



lemma example_summary_tokens:
  "map_option compressedTokens
     (compressEntry noJson (exampleConfig StrategySummary (1/2)) 500 (exampleEntry 8 t) Cold)
     = Some 4"
  by (simp add: compressEntry_tokens_eq example_cold_ratio example_target_cold
        applyCompression_def summary_tokens_example example_strategy Let_def)

lemma example_summary_record:
  "compressEntry noJson (exampleConfig StrategySummary (1/2)) 500 (exampleEntry 8 t) Cold
     = Some exampleCompressed"
  by (simp add: compressEntry_def example_cold_ratio example_target_cold example_strategy
        example_fields applyCompression_def summary_example extractKeyContent_def
        substring_def clampIndex_def jsDivide_def exampleCompressed_def double_simps Let_def)

lemma processTransitions_single:
  "processTransitions parse cfg now [entry] =
     (fst (transitionEntry parse cfg now emptyResult entry),
      [snd (transitionEntry parse cfg now emptyResult entry)])"
  by (simp add: processTransitions_eq transitionLoop_Cons del: transitionLoop.simps(2))


text \<open>The two passes of the promotion scenario, evaluated.\<close>

lemma first_pass:
  "snd (processTransitions noJson (exampleConfig StrategySummary (1/2)) 500 [exampleEntry 8 Hot])
     = [(exampleEntry 8 Cold)\<lparr>compressed := Some exampleCompressed\<rparr>]"
proof -
  let ?cfg = "exampleConfig StrategySummary (1/2)"
  let ?e = "exampleEntry 8 Hot"
  have "snd (transitionEntry noJson ?cfg 500 emptyResult ?e) =
      ?e\<lparr>compressed := Some exampleCompressed, tier := Cold\<rparr>"
    using transitionEntry_compress [of ?cfg 500 ?e noJson exampleCompressed emptyResult]
    by (simp add: example_tier_at example_fields shouldCompress_iff example_summary_record)
  then show ?thesis
    by (simp add: processTransitions_single) (simp add: exampleEntry_def)
qed

lemma accessedEntry_target:
  "determineTier (exampleConfig StrategySummary (1/2)) 2000 accessedEntry = Hot"
  by (simp add: determineTier_def Let_def example_defs)

lemma accessedEntry_pass:
  "snd (processTransitions noJson (exampleConfig StrategySummary (1/2)) 2000 [accessedEntry])
     = [accessedEntry\<lparr>tier := Hot\<rparr>]"
proof -
  have "tier accessedEntry = Cold"
    by (simp add: example_defs)
  then have "transitionEntry noJson (exampleConfig StrategySummary (1/2)) 2000 emptyResult
        accessedEntry
      = (trackTransition Cold Hot emptyResult, accessedEntry\<lparr>tier := Hot\<rparr>)"
    using transitionEntry_plain [of "exampleConfig StrategySummary (1/2)" 2000 accessedEntry
        noJson emptyResult]
    by (simp add: accessedEntry_target shouldCompress_to_hot)
  then show ?thesis
    by (simp add: processTransitions_single)
qed

subsection \<open>Claims about a compression\<close>




text \<open>
  Claim C7, as amended. A compression for the archived tier reads the configured ratio of
  the cold tier: its target size is \<^verbatim>\<open>Math.ceil(tokens * tiers.cold.compressionRatio)\<close>,
  the product taken in double precision, and \<^verbatim>\<open>compressEntry\<close> returns for the target
  archived what it returns for the target cold (nothing when that ratio is 1 or more).
  Under the summary strategy the compressed tokens of the record are the smaller of this
  target size and the estimate for the record's summary. No ratio of 0.03 is built in.
\<close>

theorem archived_uses_cold_ratio:
  "targetTokensFor cfg entry Archived =
     \<lceil>jsMultiply (real (tokens entry)) (toDouble (compressionRatio (cold (tiers cfg))))\<rceil> \<and>
   configuredRatio cfg Archived = toDouble (compressionRatio (cold (tiers cfg))) \<and>
   compressEntry parse cfg now entry Archived = compressEntry parse cfg now entry Cold \<and>
   (compressionStrategy cfg = StrategySummary \<longrightarrow>
      (\<forall>c. compressEntry parse cfg now entry Archived = Some c \<longrightarrow>
         (\<exists>text. summary c = Some text \<and>
            compressedTokens c =
              min \<lceil>jsMultiply (real (tokens entry))
                     (toDouble (compressionRatio (cold (tiers cfg))))\<rceil>
                  \<lceil>real (length text) / 4\<rceil>)))"
proof -
  have t: "targetTokensFor cfg entry Archived =
      \<lceil>jsMultiply (real (tokens entry)) (toDouble (compressionRatio (cold (tiers cfg))))\<rceil>"
    and r: "configuredRatio cfg Archived = toDouble (compressionRatio (cold (tiers cfg)))"
    by (simp_all add: targetTokensFor_def configuredRatio_def tierConfigFor_def)
  have "\<exists>text. summary c = Some text \<and>
      compressedTokens c = min (targetTokensFor cfg entry Archived) \<lceil>real (length text) / 4\<rceil>"
    if "compressionStrategy cfg = StrategySummary"
      and "compressEntry parse cfg now entry Archived = Some c" for c
    using that
    by (auto simp: compressEntry_def applyCompression_def applySummaryCompression_def Let_def
          split: if_splits)
  with t r show ?thesis
    by (simp add: compressEntry_archived)
qed

text \<open>
  An entry of 100 tokens has the target size 50 with the cold ratio 1/2, and the target
  size 8 with the cold ratio 0.07, where the rounded product is \<^verbatim>\<open>7.000000000000001\<close>; an
  entry of 10 tokens has the target size 1 with the cold ratio 0.1, where the rounded
  product is 1. An entry of 8 tokens with the cold ratio 1/2 gets the record of the
  example, of 4 tokens.
\<close>

theorem archived_uses_cold_ratio_witness:
  "targetTokensFor (exampleConfig StrategySummary (1/2)) (exampleEntry 100 Cold) Archived = 50 \<and>
   targetTokensFor (exampleConfig StrategySummary (7/100)) (exampleEntry 100 Cold) Archived = 8 \<and>
   targetTokensFor (exampleConfig StrategySummary (1/10)) (exampleEntry 10 Cold) Archived = 1 \<and>
   compressionStrategy (exampleConfig StrategySummary (1/2)) = StrategySummary \<and>
   compressEntry noJson (exampleConfig StrategySummary (1/2)) 500 (exampleEntry 8 Cold) Archived
     = Some exampleCompressed \<and>
   compressedTokens exampleCompressed =
     min \<lceil>jsMultiply (real (tokens (exampleEntry 8 Cold)))
            (toDouble (compressionRatio (cold (tiers (exampleConfig StrategySummary (1/2))))))\<rceil>
         \<lceil>real (length (the (summary exampleCompressed))) / 4\<rceil>"
proof -
  have s: "compressionStrategy (exampleConfig StrategySummary (1/2)) = StrategySummary"
    by (rule example_strategy)
  have c: "compressEntry noJson (exampleConfig StrategySummary (1/2)) 500 (exampleEntry 8 Cold)
      Archived = Some exampleCompressed"
    by (simp add: compressEntry_archived example_summary_record)
  from archived_uses_cold_ratio [of "exampleConfig StrategySummary (1/2)" "exampleEntry 8 Cold"
      noJson 500] s c
  have "compressedTokens exampleCompressed =
     min \<lceil>jsMultiply (real (tokens (exampleEntry 8 Cold)))
            (toDouble (compressionRatio (cold (tiers (exampleConfig StrategySummary (1/2))))))\<rceil>
         \<lceil>real (length (the (summary exampleCompressed))) / 4\<rceil>"
    by auto
  with s c
    archived_uses_cold_ratio [of "exampleConfig StrategySummary (1/2)" "exampleEntry 100 Cold"]
    archived_uses_cold_ratio [of "exampleConfig StrategySummary (7/100)" "exampleEntry 100 Cold"]
    archived_uses_cold_ratio [of "exampleConfig StrategySummary (1/10)" "exampleEntry 10 Cold"]
  show ?thesis
    by (simp add: targetTokensFor_archived example_target_cold example_target_rounded)
qed

text \<open>
  Claim C7 as stated fails: with the cold ratio 1/2 an entry of 8 tokens is compressed for
  the archived tier to the target size 4, where the ratio 0.03 would give 1.
\<close>

theorem archived_ratio_counterexample:
  "targetTokensFor (exampleConfig StrategySummary (1/2)) (exampleEntry 8 Cold) Archived = 4 \<and>
   \<lceil>real (tokens (exampleEntry 8 Cold)) * 0.03\<rceil> = 1 \<and>
   map_option compressedTokens
     (compressEntry noJson (exampleConfig StrategySummary (1/2)) 500 (exampleEntry 8 Cold) Archived)
     = Some 4"
  by (simp add: targetTokensFor_archived compressEntry_archived example_target_cold
        example_summary_tokens example_fields)

text \<open>
  Claim C8, as amended. The method of a record that \<^verbatim>\<open>compressEntry\<close> produces is
  \<open>embedding\<close> when the configured strategy is embedding and \<open>summary\<close> otherwise: the
  strategies summary and hybrid both yield the method summary.
\<close>

theorem method_of_strategy:
  assumes "compressEntry parse cfg now entry targetTier = Some c"
  shows "methodUsed c = (case compressionStrategy cfg of
                       StrategySummary \<Rightarrow> MethodSummary
                     | StrategyEmbedding \<Rightarrow> MethodEmbedding
                     | StrategyHybrid \<Rightarrow> MethodSummary)"
  using assms
  by (cases "compressionStrategy cfg") (auto simp: compressEntry_def Let_def split: if_splits)

text \<open>The embedding strategy at an entry of 8 tokens demoted to warm.\<close>

theorem method_of_strategy_witness:
  "compressEntry noJson (exampleConfig StrategyEmbedding (1/2)) 150 (exampleEntry 8 Hot) Warm
     \<noteq> None \<and>
   methodUsed (the (compressEntry noJson (exampleConfig StrategyEmbedding (1/2)) 150
      (exampleEntry 8 Hot) Warm)) = MethodEmbedding"
proof -
  let ?r = "compressEntry noJson (exampleConfig StrategyEmbedding (1/2)) 150
      (exampleEntry 8 Hot) Warm"
  have "?r \<noteq> None"
    by (simp add: compressEntry_def example_warm_ratio Let_def)
  then obtain c where h: "?r = Some c" by blast
  from method_of_strategy [OF h] h show ?thesis by (simp add: example_strategy)
qed

text \<open>
  Claim C8 as stated fails: under the hybrid strategy the record has the method summary.
\<close>

theorem method_hybrid_counterexample:
  "compressionStrategy (exampleConfig StrategyHybrid (1/2)) = StrategyHybrid \<and>
   map_option methodUsed
     (compressEntry noJson (exampleConfig StrategyHybrid (1/2)) 150 (exampleEntry 8 Hot) Warm)
     = Some MethodSummary"
  by (simp add: compressEntry_def example_warm_ratio example_strategy Let_def)

subsection \<open>Tier assignment\<close>

lemma jsLess_mono: "a \<le> b \<Longrightarrow> jsLess b m \<Longrightarrow> jsLess a m"
  by (cases m) simp_all

text \<open>
  Claim C4. For every configuration, entry and time, \<^verbatim>\<open>determineTier\<close> is the cascade of
  the specification: hot if \<open>promote_on_access\<close> is set and \<open>now - last_accessed_at\<close> is
  below the hot tier's maximal age; otherwise hot if the age \<open>now - created_at\<close> is below
  the hot tier's maximal age; otherwise warm if the age is below the warm tier's maximal
  age; otherwise cold.
\<close>

theorem determineTier_cascade:
  "determineTier cfg now entry =
     spec_target_tier (promoteOnAccess cfg) (maxAge (hot (tiers cfg))) (maxAge (warm (tiers cfg)))
       now (timestamp entry) (lastAccessedAt entry)"
  by (simp add: determineTier_def spec_target_tier_def Let_def)

text \<open>An entry created and accessed at time 0 is warm at time 250.\<close>

theorem determineTier_cascade_witness:
  "determineTier (exampleConfig StrategySummary (1/2)) 250 (exampleEntry 8 Hot) = Warm \<and>
   spec_target_tier True (Finite 100) (Finite 300) 250 0 0 = Warm"
  using determineTier_cascade [of "exampleConfig StrategySummary (1/2)" 250 "exampleEntry 8 Hot"]
  by (simp add: spec_target_tier_def example_defs)

text \<open>
  Claim C9, as amended. When the hot tier's maximal age is positive (\<open>0 < maxAge\<close>), an
  entry whose creation and last access timestamps are not before the current time is
  assigned the hot tier.
\<close>

theorem determineTier_clock:
  assumes "jsLess 0 (maxAge (hot (tiers cfg)))"
    and "now \<le> timestamp entry" and "now \<le> lastAccessedAt entry"
  shows "determineTier cfg now entry = Hot"
proof -
  from assms(2) have "now - timestamp entry \<le> 0" by simp
  with assms(1) have "jsLess (now - timestamp entry) (maxAge (hot (tiers cfg)))"
    by (rule jsLess_mono [rotated])
  then show ?thesis by (simp add: determineTier_def Let_def)
qed

text \<open>A cold entry with timestamps 0 at the time -5.\<close>

theorem determineTier_clock_witness:
  "jsLess 0 (maxAge (hot (tiers (exampleConfig StrategySummary (1/2))))) \<and>
   (-5) \<le> timestamp (exampleEntry 8 Cold) \<and> (-5) \<le> lastAccessedAt (exampleEntry 8 Cold) \<and>
   determineTier (exampleConfig StrategySummary (1/2)) (-5) (exampleEntry 8 Cold) = Hot"
proof -
  have h: "jsLess 0 (maxAge (hot (tiers (exampleConfig StrategySummary (1/2)))))"
    "(-5) \<le> timestamp (exampleEntry 8 Cold)" "(-5) \<le> lastAccessedAt (exampleEntry 8 Cold)"
    by (simp_all add: example_defs)
  from determineTier_clock [OF h] h show ?thesis by simp
qed

text \<open>
  Claim C9 as stated fails: with the hot tier's maximal age 0, an entry whose timestamps
  equal the current time has the age 0, which is not below 0, and is assigned warm.
\<close>

theorem determineTier_clock_counterexample:
  "0 \<le> timestamp (exampleEntry 8 Hot) \<and> 0 \<le> lastAccessedAt (exampleEntry 8 Hot) \<and>
   determineTier zeroAgeConfig 0 (exampleEntry 8 Hot) = Warm"
  by (simp add: determineTier_def Let_def example_defs)

subsection \<open>Claims about the transition pass\<close>

text \<open>
  Claim C2, as amended. \<^verbatim>\<open>compressEntry\<close> returns no record for the target hot, and a
  transition pass leaves the compressed field of every entry that is hot after the pass as
  it was before the pass: a promotion to hot changes the tier only, so a promoted entry
  keeps the compressed record it had, and an entry without a record stays without one.
\<close>

theorem promotion_keeps_compressed:
  "compressEntry parse cfg now entry Hot = None \<and>
   (i < length entries \<longrightarrow>
    tier (snd (processTransitions parse cfg now entries) ! i) = Hot \<longrightarrow>
    compressed (snd (processTransitions parse cfg now entries) ! i) = compressed (entries ! i))"
proof -
  have "compressEntry parse cfg now entry Hot = None"
    by (simp add: compressEntry_def)
  moreover
  { assume i: "i < length entries"
      and h: "tier (snd (processTransitions parse cfg now entries) ! i) = Hot"
    let ?e = "entries ! i"
    from i have n: "snd (processTransitions parse cfg now entries) ! i =
        snd (transitionEntry parse cfg now emptyResult ?e)"
      by (rule processTransitions_nth)
    with h have "determineTier cfg now ?e = Hot"
      by (simp add: transitionEntry_tier)
    then have "compressed (snd (transitionEntry parse cfg now emptyResult ?e)) = compressed ?e"
      by (simp add: transitionEntry_compressed shouldCompress_to_hot)
    with n have "compressed (snd (processTransitions parse cfg now entries) ! i)
        = compressed (entries ! i)"
      by simp }
  ultimately show ?thesis by blast
qed

text \<open>The cold entry accessed at time 1990, in a pass at time 2000.\<close>

theorem promotion_keeps_compressed_witness:
  "(0::nat) < length [accessedEntry] \<and>
   tier (snd (processTransitions noJson (exampleConfig StrategySummary (1/2)) 2000
      [accessedEntry]) ! 0) = Hot \<and>
   compressed (snd (processTransitions noJson (exampleConfig StrategySummary (1/2)) 2000
      [accessedEntry]) ! 0) = compressed ([accessedEntry] ! 0)"
proof -
  have t: "tier (snd (processTransitions noJson (exampleConfig StrategySummary (1/2)) 2000
      [accessedEntry]) ! 0) = Hot"
    by (simp add: accessedEntry_pass)
  have l: "(0::nat) < length [accessedEntry]" by simp
  with promotion_keeps_compressed [of noJson "exampleConfig StrategySummary (1/2)" 2000
      accessedEntry 0 "[accessedEntry]"] t
  show ?thesis by blast
qed

text \<open>
  Claim C2 as stated fails on the promotion scenario: an entry of 8 tokens created at time
  0 is made cold and compressed by a pass at time 500; it is accessed at time 1990; the
  pass at time 2000 makes it hot, and its compressed record is still present.
\<close>

theorem promotion_counterexample:
  "snd (processTransitions noJson (exampleConfig StrategySummary (1/2)) 500 [exampleEntry 8 Hot])
     = [(exampleEntry 8 Cold)\<lparr>compressed := Some exampleCompressed\<rparr>] \<and>
   accessedEntry =
     (exampleEntry 8 Cold)\<lparr>compressed := Some exampleCompressed, lastAccessedAt := 1990\<rparr> \<and>
   map tier (snd (processTransitions noJson (exampleConfig StrategySummary (1/2)) 2000
      [accessedEntry])) = [Hot] \<and>
   map compressed (snd (processTransitions noJson (exampleConfig StrategySummary (1/2)) 2000
      [accessedEntry])) = [Some exampleCompressed]"
  by (simp add: accessedEntry_pass first_pass) (simp add: example_defs)

text \<open>
  Claim C3, as amended. In the result of a transition pass, \<open>hotToWarm\<close> is the number of
  entries moved from hot to warm, \<open>warmToCold\<close> the number moved from warm to cold,
  \<open>promoted\<close> the number moved toward hot, and \<open>coldToArchived\<close> is 0, since a pass
  moves no entry to archived. Every entry whose tier changes is counted in exactly one of
  the counters, except the entries demoted from hot directly to cold, which are counted in
  none. \<open>tokensSaved\<close> is the sum of the effective tokens of the entries before the pass
  minus that sum after the pass.
\<close>

theorem transition_counters:
  "hotToWarm (fst (processTransitions parse cfg now entries)) =
     length (filter (\<lambda>e. tier e = Hot \<and> determineTier cfg now e = Warm) entries) \<and>
   warmToCold (fst (processTransitions parse cfg now entries)) =
     length (filter (\<lambda>e. tier e = Warm \<and> determineTier cfg now e = Cold) entries) \<and>
   coldToArchived (fst (processTransitions parse cfg now entries)) = 0 \<and>
   promoted (fst (processTransitions parse cfg now entries)) =
     length (filter (\<lambda>e. isPromotion (tier e) (determineTier cfg now e)) entries) \<and>
   hotToWarm (fst (processTransitions parse cfg now entries))
     + warmToCold (fst (processTransitions parse cfg now entries))
     + coldToArchived (fst (processTransitions parse cfg now entries))
     + promoted (fst (processTransitions parse cfg now entries))
     + length (filter (\<lambda>e. tier e = Hot \<and> determineTier cfg now e = Cold) entries)
     = length (filter (\<lambda>e. determineTier cfg now e \<noteq> tier e) entries) \<and>
   tokensSaved (fst (processTransitions parse cfg now entries)) =
     sum_list (map effectiveTokens entries)
       - sum_list (map effectiveTokens (snd (processTransitions parse cfg now entries)))"
proof -
  let ?r = "fst (processTransitions parse cfg now entries)"
  have c: "hotToWarm ?r =
      length (filter (\<lambda>e. tier e = Hot \<and> determineTier cfg now e = Warm) entries)"
    "warmToCold ?r =
      length (filter (\<lambda>e. tier e = Warm \<and> determineTier cfg now e = Cold) entries)"
    "coldToArchived ?r = 0"
    "promoted ?r =
      length (filter (\<lambda>e. isPromotion (tier e) (determineTier cfg now e)) entries)"
    using transitionLoop_counters [of parse cfg now emptyResult entries]
    by (simp_all add: processTransitions_fst emptyResult_def)
  have s: "tokensSaved ?r = sum_list (map effectiveTokens entries)
       - sum_list (map effectiveTokens (snd (processTransitions parse cfg now entries)))"
    using transitionLoop_tokensSaved [of parse cfg now emptyResult entries]
    by (simp add: processTransitions_fst processTransitions_snd emptyResult_def)
  have t: "hotToWarm ?r + warmToCold ?r + coldToArchived ?r + promoted ?r
     + length (filter (\<lambda>e. tier e = Hot \<and> determineTier cfg now e = Cold) entries)
     = length (filter (\<lambda>e. determineTier cfg now e \<noteq> tier e) entries)"
    using changes_counted [of cfg now entries] by (simp only: c)
  from c s t show ?thesis by blast
qed

text \<open>A pass at time 250 over a hot entry (then warm) and the accessed cold entry (then hot).\<close>

theorem transition_counters_witness:
  "hotToWarm (fst (processTransitions noJson (exampleConfig StrategySummary (1/2)) 250
      [exampleEntry 8 Hot, accessedEntry])) = 1 \<and>
   promoted (fst (processTransitions noJson (exampleConfig StrategySummary (1/2)) 250
      [exampleEntry 8 Hot, accessedEntry])) = 1"
  using transition_counters [of noJson "exampleConfig StrategySummary (1/2)" 250
      "[exampleEntry 8 Hot, accessedEntry]"]
  by (simp add: determineTier_def Let_def isPromotion_iff example_defs)

text \<open>
  Claim C3 as stated fails: a hot entry of age 2000 is moved to cold by the pass, and all
  four counters of the result are 0.
\<close>

theorem hot_to_cold_counterexample:
  "tier (exampleEntry 8 Hot) = Hot \<and>
   map tier (snd (processTransitions noJson (exampleConfig StrategySummary (1/2)) 2000
      [exampleEntry 8 Hot])) = [Cold] \<and>
   hotToWarm (fst (processTransitions noJson (exampleConfig StrategySummary (1/2)) 2000
      [exampleEntry 8 Hot])) = 0 \<and>
   warmToCold (fst (processTransitions noJson (exampleConfig StrategySummary (1/2)) 2000
      [exampleEntry 8 Hot])) = 0 \<and>
   coldToArchived (fst (processTransitions noJson (exampleConfig StrategySummary (1/2)) 2000
      [exampleEntry 8 Hot])) = 0 \<and>
   promoted (fst (processTransitions noJson (exampleConfig StrategySummary (1/2)) 2000
      [exampleEntry 8 Hot])) = 0"
proof -
  let ?cfg = "exampleConfig StrategySummary (1/2)"
  have "map tier (snd (processTransitions noJson ?cfg 2000 [exampleEntry 8 Hot])) = [Cold]"
    by (simp add: processTransitions_single transitionEntry_tier example_tier_at)
  moreover
  have "hotToWarm (fst (processTransitions noJson ?cfg 2000 [exampleEntry 8 Hot])) = 0 \<and>
      warmToCold (fst (processTransitions noJson ?cfg 2000 [exampleEntry 8 Hot])) = 0 \<and>
      coldToArchived (fst (processTransitions noJson ?cfg 2000 [exampleEntry 8 Hot])) = 0 \<and>
      promoted (fst (processTransitions noJson ?cfg 2000 [exampleEntry 8 Hot])) = 0"
    using transitionLoop_counters [of noJson ?cfg 2000 emptyResult "[exampleEntry 8 Hot]"]
    by (simp add: processTransitions_fst emptyResult_def example_tier_at example_fields
          isPromotion_iff)
  ultimately show ?thesis by (simp add: example_fields)
qed

text \<open>
  Claim C5. \<^verbatim>\<open>determineTier\<close> returns hot, warm or cold for every entry, whatever its age,
  and after a transition pass no entry has the tier archived.
\<close>

theorem never_archived_by_age:
  "determineTier cfg now entry \<in> {Hot, Warm, Cold} \<and>
   (\<forall>e \<in> set (snd (processTransitions parse cfg now entries)). tier e \<in> {Hot, Warm, Cold})"
proof -
  have "tier e \<in> {Hot, Warm, Cold}"
    if "e \<in> set (snd (processTransitions parse cfg now entries))" for e
  proof -
    from that have "determineTier cfg now e = tier e"
      by (simp add: processTransitions_snd transitionLoop_settled)
    with determineTier_range [of cfg now e] show ?thesis by simp
  qed
  with determineTier_range [of cfg now entry] show ?thesis by blast
qed

text \<open>An entry created at time 0, in a pass at time \<open>10\<^sup>1\<^sup>2\<close>.\<close>

theorem never_archived_by_age_witness:
  "tier (snd (processTransitions noJson (exampleConfig StrategySummary (1/2)) 1000000000000
      [exampleEntry 8 Hot]) ! 0) \<in> {Hot, Warm, Cold}"
proof -
  let ?es = "snd (processTransitions noJson (exampleConfig StrategySummary (1/2)) 1000000000000
      [exampleEntry 8 Hot])"
  have "length ?es = 1"
    by (simp add: processTransitions_length)
  then have "?es ! 0 \<in> set ?es"
    by (simp add: nth_mem)
  with never_archived_by_age [of "exampleConfig StrategySummary (1/2)" 1000000000000
      "exampleEntry 8 Hot" noJson "[exampleEntry 8 Hot]"]
  show ?thesis by blast
qed

text \<open>
  Claim C6. Under a fixed clock a second transition pass is a no-op: run on the entries
  that a first pass at the same time returned, \<^verbatim>\<open>processTransitions\<close> returns them
  unchanged, with all counters and \<open>tokensSaved\<close> zero; none of these entries needs a
  transition.
\<close>

theorem processTransitions_idempotent:
  "processTransitions parse cfg now (snd (processTransitions parse cfg now entries)) =
     (\<lparr> hotToWarm = 0, warmToCold = 0, coldToArchived = 0, promoted = 0,
        tokensSaved = 0, durationMs = 0 \<rparr>,
      snd (processTransitions parse cfg now entries)) \<and>
   (\<forall>e \<in> set (snd (processTransitions parse cfg now entries)). \<not> needsTransition cfg now e)"
proof -
  let ?es = "snd (processTransitions parse cfg now entries)"
  have settled: "\<forall>e \<in> set ?es. determineTier cfg now e = tier e"
    by (simp add: processTransitions_snd transitionLoop_settled)
  then have "transitionLoop parse cfg now emptyResult ?es = (emptyResult, ?es)"
    by (rule transitionLoop_stable)
  then have "processTransitions parse cfg now ?es =
      (\<lparr> hotToWarm = 0, warmToCold = 0, coldToArchived = 0, promoted = 0,
         tokensSaved = 0, durationMs = 0 \<rparr>, ?es)"
    by (simp add: processTransitions_eq [of parse cfg now ?es] emptyResult_def)
  with settled show ?thesis
    by (simp add: needsTransition_def)
qed

text \<open>Two passes at time 250 over a hot entry and the accessed cold entry.\<close>

theorem processTransitions_idempotent_witness:
  "fst (processTransitions noJson (exampleConfig StrategySummary (1/2)) 250
     (snd (processTransitions noJson (exampleConfig StrategySummary (1/2)) 250
        [exampleEntry 8 Hot, accessedEntry]))) =
     \<lparr> hotToWarm = 0, warmToCold = 0, coldToArchived = 0, promoted = 0,
       tokensSaved = 0, durationMs = 0 \<rparr>"
  using processTransitions_idempotent [of noJson "exampleConfig StrategySummary (1/2)" 250
      "[exampleEntry 8 Hot, accessedEntry]"]
  by simp

text \<open>
  Claim C10. An archived entry does not stay archived in a transition pass. Its new tier
  is decided by its age and last access alone: hot if \<open>promoteOnAccess\<close> is set and the
  time since the last access is below the hot tier's maximal age, otherwise hot, warm or
  cold as the age is below the hot tier's maximal age, below the warm tier's, or neither.
  The move is no compression (\<^verbatim>\<open>shouldCompress\<close> is false), so the loop body only adds one
  to \<open>promoted\<close> and sets the tier; after the pass the entry is the old one with the new
  tier; and \<open>promoted\<close> counts at least all archived entries.
\<close>

theorem archived_is_retiered:
  assumes "i < length entries" and "tier (entries ! i) = Archived"
  shows "determineTier cfg now (entries ! i) \<in> {Hot, Warm, Cold} \<and>
         \<not> shouldCompress (tier (entries ! i)) (determineTier cfg now (entries ! i)) \<and>
         transitionEntry parse cfg now result (entries ! i) =
           (result\<lparr>promoted := promoted result + 1\<rparr>,
            (entries ! i)\<lparr>tier := determineTier cfg now (entries ! i)\<rparr>) \<and>
         snd (processTransitions parse cfg now entries) ! i =
           (entries ! i)\<lparr>tier := determineTier cfg now (entries ! i)\<rparr> \<and>
         tier (snd (processTransitions parse cfg now entries) ! i) =
           (if promoteOnAccess cfg \<and>
               jsLess (now - lastAccessedAt (entries ! i)) (maxAge (hot (tiers cfg))) then Hot
            else if jsLess (now - timestamp (entries ! i)) (maxAge (hot (tiers cfg))) then Hot
            else if jsLess (now - timestamp (entries ! i)) (maxAge (warm (tiers cfg))) then Warm
            else Cold) \<and>
         length (filter (\<lambda>e. tier e = Archived) entries)
           \<le> promoted (fst (processTransitions parse cfg now entries))"
proof -
  let ?e = "entries ! i"
  let ?t = "determineTier cfg now ?e"
  have r: "?t \<in> {Hot, Warm, Cold}"
    by (rule determineTier_range)
  have n: "?t \<noteq> tier ?e"
    using assms(2) by (simp add: determineTier_not_archived)
  have s: "\<not> shouldCompress (tier ?e) ?t"
    using assms(2) by (simp add: shouldCompress_from_archived)
  have b: "transitionEntry parse cfg now r' ?e =
      (r'\<lparr>promoted := promoted r' + 1\<rparr>, ?e\<lparr>tier := ?t\<rparr>)" for r'
    using transitionEntry_plain [OF n, of parse r'] s assms(2)
    by (simp add: trackTransition_archived determineTier_not_archived)
  have p: "snd (processTransitions parse cfg now entries) ! i = ?e\<lparr>tier := ?t\<rparr>"
    using processTransitions_nth [OF assms(1), of parse cfg now emptyResult]
    by (simp add: b)
  have a: "tier (snd (processTransitions parse cfg now entries) ! i) =
      (if promoteOnAccess cfg \<and> jsLess (now - lastAccessedAt ?e) (maxAge (hot (tiers cfg)))
       then Hot
       else if jsLess (now - timestamp ?e) (maxAge (hot (tiers cfg))) then Hot
       else if jsLess (now - timestamp ?e) (maxAge (warm (tiers cfg))) then Warm
       else Cold)"
    by (simp only: p) (simp add: determineTier_def Let_def)
  have "promoted (fst (processTransitions parse cfg now entries)) =
      length (filter (\<lambda>e. isPromotion (tier e) (determineTier cfg now e)) entries)"
    using transitionLoop_counters [of parse cfg now emptyResult entries]
    by (simp add: processTransitions_fst emptyResult_def)
  moreover have "length (filter (\<lambda>e. tier e = Archived) entries)
      \<le> length (filter (\<lambda>e. isPromotion (tier e) (determineTier cfg now e)) entries)"
    by (rule filter_length_mono) (simp add: isPromotion_iff determineTier_not_archived)
  ultimately have c: "length (filter (\<lambda>e. tier e = Archived) entries)
      \<le> promoted (fst (processTransitions parse cfg now entries))"
    by simp
  from r s b [of result] p a c show ?thesis by blast
qed

text \<open>
  An archived entry created and last accessed at time 0: a pass at time 50 makes it hot,
  one at time 250 warm, one at time 2000 cold.
\<close>

theorem archived_is_retiered_witness:
  "(0::nat) < length [exampleEntry 8 Archived] \<and>
   tier ([exampleEntry 8 Archived] ! 0) = Archived \<and>
   snd (processTransitions noJson (exampleConfig StrategySummary (1/2)) 50
      [exampleEntry 8 Archived]) ! 0 = exampleEntry 8 Hot \<and>
   snd (processTransitions noJson (exampleConfig StrategySummary (1/2)) 250
      [exampleEntry 8 Archived]) ! 0 = exampleEntry 8 Warm \<and>
   snd (processTransitions noJson (exampleConfig StrategySummary (1/2)) 2000
      [exampleEntry 8 Archived]) ! 0 = exampleEntry 8 Cold \<and>
   1 \<le> promoted (fst (processTransitions noJson (exampleConfig StrategySummary (1/2)) 2000
      [exampleEntry 8 Archived]))"
proof -
  have h: "(0::nat) < length [exampleEntry 8 Archived]"
    "tier ([exampleEntry 8 Archived] ! 0) = Archived"
    by (simp_all add: example_fields)
  from archived_is_retiered [OF h, of "exampleConfig StrategySummary (1/2)" 50 noJson emptyResult]
    archived_is_retiered [OF h, of "exampleConfig StrategySummary (1/2)" 250 noJson emptyResult]
    archived_is_retiered [OF h, of "exampleConfig StrategySummary (1/2)" 2000 noJson emptyResult]
    h
  show ?thesis by (simp add: example_tier_at example_retier)
qed

end
